theory Spec2Isabelle
  imports Complex_Main "HOL-Library.Multiset"
begin

section \<open>The dashboard script \<^verbatim>\<open>full_dashboard.py\<close>\<close>

text \<open>
  The script loads four CSV tables, builds three charts and a summary card from them,
  puts them into a static page tree and serves the page. This theory embeds the
  script: the tables as lists of rows, the pandas and plotly calls it makes as list
  functions, the module-level statements as a function from the files on disk to what
  the process prints and how it ends.

  Scope of the embedding. A table holds the columns the script reads, with the types
  the upstream pipeline writes: \<open>word\<close>/\<open>total_count\<close>, \<open>date\<close>/\<open>avg_sentiment\<close>,
  \<open>user\<close>/\<open>total_engagement\<close>/\<open>total_likes\<close>; the cleaned-tweets rows are of any
  type, since only their number is read. A cell of an integer column is an integer;
  pandas gives such a column the type \<^verbatim>\<open>int64\<close> when its cells are in the 64-bit
  range, and the sum of the column is then taken in 64-bit arithmetic, which wraps
  around. The quotient and the rounding of the summary card are computed in binary
  floating point, as NumPy does. The sentiment scores, which are only plotted, are
  real numbers. A file that pandas cannot read as such a table is \<open>Unparsable\<close>.
\<close>

subsection \<open>Tables\<close>

text \<open>A timestamp is a point of the time line, an integer; a later date is a greater one.\<close>

type_synonym timestamp = int

record word_count_row =
  word :: string
  total_count :: int

record 'd daily_sentiment_row =
  date :: 'd
  avg_sentiment :: real

record user_stats_row =
  user :: string
  total_engagement :: int
  total_likes :: int

text \<open>
  \<^verbatim>\<open>DataFrame.head(n)\<close> is the slice \<^verbatim>\<open>iloc[:n]\<close>: the first \<open>n\<close> rows, all rows when
  the table has fewer. \<^verbatim>\<open>DataFrame.sort_values(by=col, ascending=True)\<close> returns a new
  table, the rows ordered by the column. pandas sorts with an unstable quicksort by
  default, so the order among rows with equal keys is the library's choice; the model
  keeps them in their previous order, and the theorems below speak of the rows as a
  multiset and of the keys being ascending, which holds for either choice.
\<close>

definition head :: "nat \<Rightarrow> 'r list \<Rightarrow> 'r list" where
  "head n df = take n df"

definition sort_values :: "('r \<Rightarrow> int) \<Rightarrow> 'r list \<Rightarrow> 'r list" where
  "sort_values by_col df = sort_key by_col df"

subsection \<open>Figures\<close>

text \<open>
  A plotly figure with one trace: the two data arrays of the trace, in the order the
  rows were given (plotly express copies the columns and does not reorder them), and
  the settings the script passes. A column is named and read: the pair of its name and
  its accessor.
\<close>

datatype datum = IntD int | StrD string | DateD timestamp | NumD real

record figure =
  trace_type :: string
  orientation :: string
  data_x :: "datum list"
  data_y :: "datum list"
  title_text :: string
  xaxis_title :: string
  yaxis_title :: string
  trace_style :: "(string \<times> string) list"

type_synonym 'r column = "string \<times> ('r \<Rightarrow> datum)"

definition axis_label :: "(string \<times> string) list \<Rightarrow> string \<Rightarrow> string" where
  "axis_label labels col = (case map_of labels col of Some l \<Rightarrow> l | None \<Rightarrow> col)"

definition px_bar ::
  "'r list \<Rightarrow> 'r column \<Rightarrow> 'r column \<Rightarrow> string \<Rightarrow> string \<Rightarrow> (string \<times> string) list \<Rightarrow> string
    \<Rightarrow> figure" where
  "px_bar data_frame xcol ycol orient ttl labels colors =
     \<lparr>trace_type = ''bar'', orientation = orient,
      data_x = map (snd xcol) data_frame, data_y = map (snd ycol) data_frame,
      title_text = ttl,
      xaxis_title = axis_label labels (fst xcol), yaxis_title = axis_label labels (fst ycol),
      trace_style = [(''color_discrete_sequence'', colors)]\<rparr>"

definition px_line ::
  "'r list \<Rightarrow> 'r column \<Rightarrow> 'r column \<Rightarrow> string \<Rightarrow> (string \<times> string) list \<Rightarrow> string
    \<Rightarrow> figure" where
  "px_line data_frame xcol ycol ttl labels shape =
     \<lparr>trace_type = ''scatter'', orientation = ''v'',
      data_x = map (snd xcol) data_frame, data_y = map (snd ycol) data_frame,
      title_text = ttl,
      xaxis_title = axis_label labels (fst xcol), yaxis_title = axis_label labels (fst ycol),
      trace_style = [(''line_shape'', shape)]\<rparr>"

definition update_traces :: "(string \<times> string) list \<Rightarrow> figure \<Rightarrow> figure" where
  "update_traces props fig = fig\<lparr>trace_style := trace_style fig @ props\<rparr>"

text \<open>The marks of a figure: one bar or one point per row, its x and its y value.\<close>

definition marks :: "figure \<Rightarrow> (datum \<times> datum) list" where
  "marks fig = zip (data_x fig) (data_y fig)"

text \<open>The dates among the x values of a figure, in the order of its data array.\<close>

fun datum_dates :: "datum list \<Rightarrow> timestamp list" where
  "datum_dates [] = []"
| "datum_dates (DateD d # rest) = d # datum_dates rest"
| "datum_dates (other # rest) = datum_dates rest"

subsection \<open>The chart builders\<close>

definition create_word_count_chart :: "word_count_row list \<Rightarrow> figure" where
  "create_word_count_chart df =
     (let top_words = sort_values total_count (head 20 df)
      in px_bar top_words (''total_count'', IntD \<circ> total_count) (''word'', StrD \<circ> word) ''h''
           ''Top 20 Most Frequent Words (MapReduce 1)''
           [(''word'', ''Word''), (''total_count'', ''Total Count'')]
           ''Teal_r'')"

definition create_sentiment_line_chart :: "timestamp daily_sentiment_row list \<Rightarrow> figure" where
  "create_sentiment_line_chart df =
     (let fig = px_line df (''date'', DateD \<circ> date) (''avg_sentiment'', NumD \<circ> avg_sentiment)
                  ''Daily Average Sentiment Trend (MapReduce 2)''
                  [(''date'', ''Date''), (''avg_sentiment'', ''Average Sentiment Score'')]
                  ''spline''
      in update_traces
           [(''line_color'', ''#006699''), (''marker_size'', ''5''), (''marker_color'', ''#006699'')]
           fig)"

definition create_user_engagement_chart :: "user_stats_row list \<Rightarrow> figure" where
  "create_user_engagement_chart df =
     (let top_users = sort_values total_engagement (head 10 df)
      in px_bar top_users (''total_engagement'', IntD \<circ> total_engagement) (''user'', StrD \<circ> user) ''h''
           ''Top 10 Most Engaged Users (MapReduce 3)''
           [(''user'', ''User ID''), (''total_engagement'', ''Total Engagement (Likes + Retweets)'')]
           ''Plasma_r'')"

subsection \<open>Python values\<close>

text \<open>
  The exceptions the script can meet, and its numbers.

  A float is a binary64 value: a real number with a 53-bit significand, one of the two
  zeros, an infinity or a NaN. \<open>float64\<close> rounds a real number to the nearest such
  value, a tie to the even significand: \<open>binade x\<close> is the exponent of the power of two
  at or below \<open>\<bar>x\<bar>\<close>, found by bisection and not below the least normal exponent, so
  that \<open>pow2 (binade x - 52)\<close> is the unit in the last place; a result of magnitude
  \<open>2 ^ 1024\<close> or more is an infinity, and a negative number that rounds to zero is the
  negative zero.
\<close>

datatype py_error =
  FileNotFoundError string | ParserError | ValueError | ZeroDivisionError | OverflowError

datatype pyfloat = Finite real | NegZero | PosInf | NegInf | NaN

definition rint :: "real \<Rightarrow> int" where
  "rint q =
     (let f = \<lfloor>q\<rfloor> in
      if q - of_int f < 1 / 2 then f
      else if 1 / 2 < q - of_int f then f + 1
      else if even f then f else f + 1)"

definition pow2 :: "int \<Rightarrow> real" where
  "pow2 e = (if 0 \<le> e then 2 ^ nat e else 1 / 2 ^ nat (- e))"

definition binade :: "real \<Rightarrow> int" where
  "binade x =
     fold (\<lambda>step e. if pow2 (e + step) \<le> \<bar>x\<bar> then e + step else e)
       [1024, 512, 256, 128, 64, 32, 16, 8, 4, 2, 1] (- 1022)"

definition float64 :: "real \<Rightarrow> pyfloat" where
  "float64 x =
     (let ulp = pow2 (binade x - 52); v = of_int (rint (x / ulp)) * ulp in
      if pow2 1024 \<le> \<bar>v\<bar> then (if 0 < x then PosInf else NegInf)
      else if v = 0 \<and> x < 0 then NegZero
      else Finite v)"

text \<open>The real number a float stands for; the zeros are 0, and so is what is no number.\<close>

fun float_value :: "pyfloat \<Rightarrow> real" where
  "float_value (Finite v) = v"
| "float_value other = 0"

text \<open>
  \<^verbatim>\<open>read_csv\<close> gives a column of integers the type \<^verbatim>\<open>int64\<close> when every cell is in
  the 64-bit range. \<^verbatim>\<open>Series.sum()\<close> of such a column is a NumPy \<^verbatim>\<open>int64\<close>, the sum
  of the cells in 64-bit two's complement arithmetic, which wraps around; of the column
  of a table without rows (which \<^verbatim>\<open>read_csv\<close> types as \<^verbatim>\<open>object\<close>) it is the Python
  integer 0.
\<close>

definition int64_column :: "int list \<Rightarrow> bool" where
  "int64_column col \<longleftrightarrow> (\<forall>v \<in> set col. - (2 ^ 63) \<le> v \<and> v < 2 ^ 63)"

definition int64 :: "int \<Rightarrow> int" where
  "int64 k = (k + 2 ^ 63) mod 2 ^ 64 - 2 ^ 63"

datatype number = PyInt int | NpInt64 int

definition series_sum :: "int list \<Rightarrow> number" where
  "series_sum col = (if col = [] then PyInt 0 else NpInt64 (int64 (sum_list col)))"

text \<open>
  The quotient \<^verbatim>\<open>/\<close> of a sum by a row count (a Python integer, below \<open>2 ^ 63\<close> as
  every \<^verbatim>\<open>len\<close> is). It is a Python float or a NumPy \<^verbatim>\<open>float64\<close> as the sum is a
  Python or a NumPy integer. Python divides the two integers exactly and rounds once;
  it raises \<^verbatim>\<open>ZeroDivisionError\<close> on a zero divisor and \<^verbatim>\<open>OverflowError\<close> on a
  quotient too large for a float. NumPy converts both integers to \<^verbatim>\<open>float64\<close> and
  divides the floats; on a zero divisor it warns and returns an infinity or a NaN.
\<close>

datatype float_number = PyFloat pyfloat | NpFloat64 pyfloat

fun the_float :: "float_number \<Rightarrow> pyfloat" where
  "the_float (PyFloat x) = x"
| "the_float (NpFloat64 x) = x"

fun true_divide :: "number \<Rightarrow> nat \<Rightarrow> py_error + float_number" where
  "true_divide (PyInt a) n =
     (if n = 0 then Inl ZeroDivisionError
      else (case float64 (of_int a / of_nat n) of
              PosInf \<Rightarrow> Inl OverflowError
            | NegInf \<Rightarrow> Inl OverflowError
            | q \<Rightarrow> Inr (PyFloat q)))"
| "true_divide (NpInt64 a) n =
     Inr (NpFloat64
       (if n = 0 then (if 0 < a then PosInf else if a < 0 then NegInf else NaN)
        else float64 (float_value (float64 (of_int a)) / float_value (float64 (of_nat n)))))"

text \<open>
  \<^verbatim>\<open>round(x, ndigits)\<close>. Of a Python float it is the float nearest to the decimal
  rounding of the exact value of \<open>x\<close>, a tie to the even digit. Of a NumPy \<^verbatim>\<open>float64\<close>
  it is NumPy's \<^verbatim>\<open>round\<close>: the float product of \<open>x\<close> and the power of ten, rounded to
  the nearest integer, a tie to the even one, and divided as a float by the power of
  ten. Both keep the sign of a zero, and an infinity and a NaN as they are.
\<close>

fun py_round :: "float_number \<Rightarrow> nat \<Rightarrow> float_number" where
  "py_round (PyFloat x) ndigits =
     PyFloat
       (case x of
          Finite v \<Rightarrow>
            if rint (v * 10 ^ ndigits) = 0 \<and> v < 0 then NegZero
            else float64 (of_int (rint (v * 10 ^ ndigits)) / 10 ^ ndigits)
        | other \<Rightarrow> other)"
| "py_round (NpFloat64 x) ndigits =
     NpFloat64
       (case x of
          Finite v \<Rightarrow>
            (case float64 (v * 10 ^ ndigits) of
               Finite y \<Rightarrow>
                 if rint y = 0 \<and> y < 0 then NegZero else float64 (of_int (rint y) / 10 ^ ndigits)
             | other \<Rightarrow> other)
        | other \<Rightarrow> other)"

text \<open>The format \<^verbatim>\<open>f"{n:,}"\<close> of a count: its decimal digits, a comma before every
  group of three from the right.\<close>

definition digit_char :: "nat \<Rightarrow> char" where
  "digit_char d = ''0123456789'' ! d"

fun decimal :: "nat \<Rightarrow> string" where
  "decimal n = (if n < 10 then [digit_char n] else decimal (n div 10) @ [digit_char (n mod 10)])"

declare decimal.simps [simp del]

fun comma_groups :: "string \<Rightarrow> string" where
  "comma_groups (a # b # c # d # rest) = a # b # c # CHR '','' # comma_groups (d # rest)"
| "comma_groups ds = ds"

definition format_thousands :: "nat \<Rightarrow> string" where
  "format_thousands n = rev (comma_groups (rev (decimal n)))"

text \<open>Reading a formatted count back: the commas dropped, the digits as a decimal number.\<close>

definition digit_value :: "char \<Rightarrow> nat" where
  "digit_value c = of_char c - 48"

definition read_decimal :: "string \<Rightarrow> nat" where
  "read_decimal s = foldl (\<lambda>acc c. 10 * acc + digit_value c) 0 s"

definition read_thousands :: "string \<Rightarrow> nat" where
  "read_thousands s = read_decimal (filter (\<lambda>c. c \<noteq> CHR '','') s)"

subsection \<open>Page components\<close>

type_synonym style = "(string \<times> string) list"

text \<open>The text of a heading is a string, or the text Python prints for a float.\<close>

datatype content = Text string | FloatText pyfloat

datatype component =
    H1 string style
  | H2 string style
  | H3 content style
  | P string
  | Hr
  | Div "string option" style "component list"
  | Graph figure

text \<open>The texts of the \<^verbatim>\<open>H3\<close> headings of a component, in document order.\<close>

fun h3_contents :: "component \<Rightarrow> content list" where
  "h3_contents (H3 c st) = [c]"
| "h3_contents (Div cls st children) = concat (map h3_contents children)"
| "h3_contents other = []"

text \<open>
  The statistics of a component, in document order: of every block that is a heading
  followed by a paragraph, the text of the paragraph, which is the label, and the text
  of the heading.
\<close>

fun stat_blocks :: "component \<Rightarrow> (string \<times> content) list" where
  "stat_blocks (Div cls st [H3 c st', P label]) = [(label, c)]"
| "stat_blocks (Div cls st children) = concat (map stat_blocks children)"
| "stat_blocks other = []"

text \<open>The figures of the \<^verbatim>\<open>dcc.Graph\<close> components of a component, in document order.\<close>

fun graphs :: "component \<Rightarrow> figure list" where
  "graphs (Graph fig) = [fig]"
| "graphs (Div cls st children) = concat (map graphs children)"
| "graphs other = []"

subsection \<open>The module's tables, the summary card and the layout\<close>

record 't tables =
  word_count_df :: "word_count_row list"
  daily_sentiment_df :: "timestamp daily_sentiment_row list"
  user_stats_df :: "user_stats_row list"
  cleaned_tweets_df :: "'t list"

record 't globals = "'t tables" +
  emotions_sample_df :: "'t list"

definition card_style :: style where
  "card_style =
     [(''border'', ''1px solid #ddd''), (''borderRadius'', ''5px''), (''padding'', ''10px''),
      (''margin'', ''10px''), (''textAlign'', ''center''), (''backgroundColor'', ''#fff'')]"

definition create_summary_card :: "('t, 'm) tables_scheme \<Rightarrow> py_error + component" where
  "create_summary_card g =
     (let total_tweets = length (cleaned_tweets_df g);
          unique_users = length (user_stats_df g)
      in case true_divide (series_sum (map total_likes (user_stats_df g))) total_tweets of
           Inl e \<Rightarrow> Inl e
         | Inr ratio \<Rightarrow>
             (let avg_likes = py_round ratio 2
              in Inr (Div (Some ''row'') []
                   [Div (Some ''four columns'') card_style
                      [H3 (Text (format_thousands total_tweets)) [(''color'', ''#003366'')],
                       P ''Total Tweets Processed''],
                    Div (Some ''four columns'') card_style
                      [H3 (Text (format_thousands unique_users)) [(''color'', ''#003366'')],
                       P ''Unique Users Analyzed''],
                    Div (Some ''four columns'') card_style
                      [H3 (FloatText (the_float avg_likes)) [(''color'', ''#003366'')],
                       P ''Avg. Likes per Tweet'']])))"

definition layout :: "('t, 'm) tables_scheme \<Rightarrow> py_error + component" where
  "layout g =
     (case create_summary_card g of
        Inl e \<Rightarrow> Inl e
      | Inr summary \<Rightarrow>
          Inr (Div None [(''backgroundColor'', ''#f8f9fa''), (''padding'', ''20px'')]
            [H1 ''Social Media Analysis Dashboard''
               [(''textAlign'', ''center''), (''color'', ''#003366''), (''margin-bottom'', ''30px'')],
             H2 ''Key Metrics Summary'' [(''color'', ''#333333''), (''textAlign'', ''center'')],
             summary,
             Hr,
             Div (Some ''row'') []
               [Div (Some ''six columns'') []
                  [H3 (Text ''Text Analysis'') [(''color'', ''#333333'')],
                   Graph (create_word_count_chart (word_count_df g))],
                Div (Some ''six columns'') []
                  [H3 (Text ''User Performance'') [(''color'', ''#333333'')],
                   Graph (create_user_engagement_chart (user_stats_df g))]],
             Hr,
             Div (Some ''row'') []
               [Div (Some ''twelve columns'') []
                  [H3 (Text ''Time-Series Analysis'') [(''color'', ''#333333'')],
                   Graph (create_sentiment_line_chart (daily_sentiment_df g))]]]))"

text \<open>
  The state of the module once the tables are loaded: its global tables and the layout
  of the app, unset until the assignment \<^verbatim>\<open>app.layout = ...\<close> has run. The assignment
  evaluates the page tree, which calls the four builders, and stores it. The builders
  read the tables: \<^verbatim>\<open>head\<close> and \<^verbatim>\<open>sort_values\<close> return new tables, plotly express copies
  the columns it draws, and no statement of a builder assigns to a table or to a global
  name, so the assignment of the layout is the only change of the state.
\<close>

record 'g py_module =
  module_globals :: 'g
  app_layout :: "component option"

definition assign_layout ::
  "('t, 'm) tables_scheme py_module \<Rightarrow> py_error + ('t, 'm) tables_scheme py_module" where
  "assign_layout s =
     (case layout (module_globals s) of
        Inl e \<Rightarrow> Inl e
      | Inr tree \<Rightarrow> Inr (s\<lparr>app_layout := Some tree\<rparr>))"

subsection \<open>Loading\<close>

text \<open>
  A file on disk is missing, or not readable as the table, or holds the table; the
  sentiment file holds its dates as texts. \<^verbatim>\<open>pd.read_csv\<close> raises \<^verbatim>\<open>FileNotFoundError\<close>
  with the name of a missing file. \<^verbatim>\<open>pd.to_datetime\<close> is pandas' own parser of date
  texts: it is a parameter of the model, the function \<open>parse\<close> from a text to its
  timestamp, \<open>None\<close> where pandas raises \<^verbatim>\<open>ValueError\<close>. The statements of the
  \<^verbatim>\<open>try\<close> block run in the order of the source, and the first exception ends it.
\<close>

datatype 'a csv_file = Missing | Unparsable | Csv 'a

record 't files =
  mapreduce_word_count_csv :: "word_count_row list csv_file"
  mapreduce_daily_sentiment_csv :: "string daily_sentiment_row list csv_file"
  mapreduce_user_stats_csv :: "user_stats_row list csv_file"
  tweets_cleaned_csv :: "'t list csv_file"

fun read_csv :: "string \<Rightarrow> 'a csv_file \<Rightarrow> py_error + 'a" where
  "read_csv name Missing = Inl (FileNotFoundError name)"
| "read_csv name Unparsable = Inl ParserError"
| "read_csv name (Csv table) = Inr table"

fun and_then :: "py_error + 'a \<Rightarrow> ('a \<Rightarrow> py_error + 'b) \<Rightarrow> py_error + 'b" where
  "and_then (Inl e) f = Inl e"
| "and_then (Inr v) f = f v"

definition to_datetime :: "(string \<Rightarrow> timestamp option) \<Rightarrow> string list \<Rightarrow> py_error + timestamp list" where
  "to_datetime parse col =
     (if list_all (\<lambda>s. parse s \<noteq> None) col then Inr (map (the \<circ> parse) col) else Inl ValueError)"

definition assign_date :: "'a daily_sentiment_row list \<Rightarrow> 'b list \<Rightarrow> 'b daily_sentiment_row list" where
  "assign_date df col = map2 (\<lambda>r d. \<lparr>date = d, avg_sentiment = avg_sentiment r\<rparr>) df col"

definition load_data :: "(string \<Rightarrow> timestamp option) \<Rightarrow> 't files \<Rightarrow> py_error + 't globals" where
  "load_data parse fs =
     and_then (read_csv ''mapreduce_word_count.csv'' (mapreduce_word_count_csv fs)) (\<lambda>wc.
     and_then (read_csv ''mapreduce_daily_sentiment.csv'' (mapreduce_daily_sentiment_csv fs)) (\<lambda>ds.
     and_then (read_csv ''mapreduce_user_stats.csv'' (mapreduce_user_stats_csv fs)) (\<lambda>us.
     and_then (read_csv ''tweets_cleaned.csv'' (tweets_cleaned_csv fs)) (\<lambda>ct.
     and_then (read_csv ''tweets_cleaned.csv'' (tweets_cleaned_csv fs)) (\<lambda>again.
     and_then (to_datetime parse (map date ds)) (\<lambda>dates.
       Inr \<lparr>word_count_df = wc, daily_sentiment_df = assign_date ds dates,
            user_stats_df = us, cleaned_tweets_df = ct,
            emotions_sample_df = head 1000 again\<rparr>))))))"

subsection \<open>The script\<close>

text \<open>
  A run of the script as the main module: the lines it prints on standard output, and
  how it ends. It exits in the handler of \<^verbatim>\<open>FileNotFoundError\<close>, the only handler
  there is, dies of an exception nothing catches, or reaches \<^verbatim>\<open>app.run\<close> and serves
  the layout. The last line it prints starts with a line feed and the nine bytes the
  source file has before the word \<open>Starting\<close>.
\<close>

datatype 'a outcome = Exited | Uncaught py_error | Serving 'a

record 'a run =
  stdout :: "string list"
  outcome :: "'a outcome"

definition str_FileNotFoundError :: "string \<Rightarrow> string" where
  "str_FileNotFoundError name =
     ''[Errno 2] No such file or directory: '' @ [CHR 0x27] @ name @ [CHR 0x27]"

definition loading_message :: string where
  "loading_message = ''Loading data from R analysis outputs...''"

definition not_found_message :: "string \<Rightarrow> string" where
  "not_found_message name =
     ''ERROR: A required CSV file was not found: '' @ str_FileNotFoundError name"

definition hint_message :: string where
  "hint_message =
     ''Please ensure you have run 01, 03, 04, and 05 R scripts and the output files are in this directory.''"

definition starting_message :: string where
  "starting_message =
     [CHR 0x0A, CHR 0xC3, CHR 0xB0, CHR 0xC5, CHR 0xB8, CHR 0xC5, CHR 0xA1, CHR 0xE2, CHR 0x82, CHR 0xAC]
     @ '' Starting Dash app. Open http://127.0.0.1:8050/ in your browser.'' @ [CHR 0x0A]"

definition main :: "(string \<Rightarrow> timestamp option) \<Rightarrow> 't files \<Rightarrow> 't globals py_module run" where
  "main parse fs =
     (case load_data parse fs of
        Inl err \<Rightarrow>
          (case err of
             FileNotFoundError name \<Rightarrow>
               \<lparr>stdout = [loading_message, not_found_message name, hint_message],
                outcome = Exited\<rparr>
           | _ \<Rightarrow> \<lparr>stdout = [loading_message], outcome = Uncaught err\<rparr>)
      | Inr g \<Rightarrow>
          (case assign_layout \<lparr>module_globals = g, app_layout = None\<rparr> of
             Inl err \<Rightarrow> \<lparr>stdout = [loading_message], outcome = Uncaught err\<rparr>
           | Inr s \<Rightarrow> \<lparr>stdout = [loading_message, starting_message], outcome = Serving s\<rparr>))"

text \<open>
  The script with the statement that loads \<^verbatim>\<open>emotions_sample_df\<close> removed: it reads
  the four files once each and has the four tables only.
\<close>

definition load_data_without_prefix ::
  "(string \<Rightarrow> timestamp option) \<Rightarrow> 't files \<Rightarrow> py_error + 't tables" where
  "load_data_without_prefix parse fs =
     and_then (read_csv ''mapreduce_word_count.csv'' (mapreduce_word_count_csv fs)) (\<lambda>wc.
     and_then (read_csv ''mapreduce_daily_sentiment.csv'' (mapreduce_daily_sentiment_csv fs)) (\<lambda>ds.
     and_then (read_csv ''mapreduce_user_stats.csv'' (mapreduce_user_stats_csv fs)) (\<lambda>us.
     and_then (read_csv ''tweets_cleaned.csv'' (tweets_cleaned_csv fs)) (\<lambda>ct.
     and_then (to_datetime parse (map date ds)) (\<lambda>dates.
       Inr \<lparr>word_count_df = wc, daily_sentiment_df = assign_date ds dates,
            user_stats_df = us, cleaned_tweets_df = ct\<rparr>)))))"

definition main_without_prefix ::
  "(string \<Rightarrow> timestamp option) \<Rightarrow> 't files \<Rightarrow> 't tables py_module run" where
  "main_without_prefix parse fs =
     (case load_data_without_prefix parse fs of
        Inl err \<Rightarrow>
          (case err of
             FileNotFoundError name \<Rightarrow>
               \<lparr>stdout = [loading_message, not_found_message name, hint_message],
                outcome = Exited\<rparr>
           | _ \<Rightarrow> \<lparr>stdout = [loading_message], outcome = Uncaught err\<rparr>)
      | Inr g \<Rightarrow>
          (case assign_layout \<lparr>module_globals = g, app_layout = None\<rparr> of
             Inl err \<Rightarrow> \<lparr>stdout = [loading_message], outcome = Uncaught err\<rparr>
           | Inr s \<Rightarrow> \<lparr>stdout = [loading_message, starting_message], outcome = Serving s\<rparr>))"

subsection \<open>Objects and references\<close>

text \<open>
  The builders once more, on the objects of the interpreter. A table and a figure are
  objects of the memory; a variable holds a reference, the index of its object. The
  calls of the builders act on the memory as pandas and plotly do:
  \<^verbatim>\<open>head\<close> and \<^verbatim>\<open>sort_values\<close> (called without \<^verbatim>\<open>inplace\<close>) make a new table and leave
  the table they are called on as it is, \<^verbatim>\<open>px.bar\<close> and \<^verbatim>\<open>px.line\<close> read their table
  and make a new figure, and \<^verbatim>\<open>update_traces\<close> changes the figure it is called on in
  place. The module has its five global names, each bound to a table, and the layout
  of the app.
\<close>

record 't memory =
  wc_objects :: "word_count_row list list"
  ds_objects :: "timestamp daily_sentiment_row list list"
  us_objects :: "user_stats_row list list"
  tw_objects :: "'t list list"
  fig_objects :: "figure list"

record 't module_state = "'t memory" +
  word_count_df_ref :: nat
  daily_sentiment_df_ref :: nat
  user_stats_df_ref :: nat
  cleaned_tweets_df_ref :: nat
  emotions_sample_df_ref :: nat
  layout_attr :: "component option"

definition wc_head :: "nat \<Rightarrow> nat \<Rightarrow> ('t, 'm) memory_scheme \<Rightarrow> nat \<times> ('t, 'm) memory_scheme" where
  "wc_head n df m =
     (length (wc_objects m), m\<lparr>wc_objects := wc_objects m @ [head n (wc_objects m ! df)]\<rparr>)"

definition wc_sort_values ::
  "(word_count_row \<Rightarrow> int) \<Rightarrow> nat \<Rightarrow> ('t, 'm) memory_scheme \<Rightarrow> nat \<times> ('t, 'm) memory_scheme" where
  "wc_sort_values by_col df m =
     (length (wc_objects m),
      m\<lparr>wc_objects := wc_objects m @ [sort_values by_col (wc_objects m ! df)]\<rparr>)"

definition us_head :: "nat \<Rightarrow> nat \<Rightarrow> ('t, 'm) memory_scheme \<Rightarrow> nat \<times> ('t, 'm) memory_scheme" where
  "us_head n df m =
     (length (us_objects m), m\<lparr>us_objects := us_objects m @ [head n (us_objects m ! df)]\<rparr>)"

definition us_sort_values ::
  "(user_stats_row \<Rightarrow> int) \<Rightarrow> nat \<Rightarrow> ('t, 'm) memory_scheme \<Rightarrow> nat \<times> ('t, 'm) memory_scheme" where
  "us_sort_values by_col df m =
     (length (us_objects m),
      m\<lparr>us_objects := us_objects m @ [sort_values by_col (us_objects m ! df)]\<rparr>)"

definition new_figure :: "figure \<Rightarrow> ('t, 'm) memory_scheme \<Rightarrow> nat \<times> ('t, 'm) memory_scheme" where
  "new_figure fig m = (length (fig_objects m), m\<lparr>fig_objects := fig_objects m @ [fig]\<rparr>)"

definition fig_update_traces ::
  "(string \<times> string) list \<Rightarrow> nat \<Rightarrow> ('t, 'm) memory_scheme \<Rightarrow> ('t, 'm) memory_scheme" where
  "fig_update_traces props fig m =
     m\<lparr>fig_objects := (fig_objects m)[fig := update_traces props (fig_objects m ! fig)]\<rparr>"

definition create_word_count_chart_st ::
  "nat \<Rightarrow> ('t, 'm) memory_scheme \<Rightarrow> nat \<times> ('t, 'm) memory_scheme" where
  "create_word_count_chart_st df m =
     (let (first_rows, m1) = wc_head 20 df m;
          (top_words, m2) = wc_sort_values total_count first_rows m1
      in new_figure
           (px_bar (wc_objects m2 ! top_words)
              (''total_count'', IntD \<circ> total_count) (''word'', StrD \<circ> word) ''h''
              ''Top 20 Most Frequent Words (MapReduce 1)''
              [(''word'', ''Word''), (''total_count'', ''Total Count'')]
              ''Teal_r'')
           m2)"

definition create_sentiment_line_chart_st ::
  "nat \<Rightarrow> ('t, 'm) memory_scheme \<Rightarrow> nat \<times> ('t, 'm) memory_scheme" where
  "create_sentiment_line_chart_st df m =
     (let (fig, m1) =
            new_figure
              (px_line (ds_objects m ! df)
                 (''date'', DateD \<circ> date) (''avg_sentiment'', NumD \<circ> avg_sentiment)
                 ''Daily Average Sentiment Trend (MapReduce 2)''
                 [(''date'', ''Date''), (''avg_sentiment'', ''Average Sentiment Score'')]
                 ''spline'')
              m
      in (fig,
          fig_update_traces
            [(''line_color'', ''#006699''), (''marker_size'', ''5''), (''marker_color'', ''#006699'')]
            fig m1))"

definition create_user_engagement_chart_st ::
  "nat \<Rightarrow> ('t, 'm) memory_scheme \<Rightarrow> nat \<times> ('t, 'm) memory_scheme" where
  "create_user_engagement_chart_st df m =
     (let (first_rows, m1) = us_head 10 df m;
          (top_users, m2) = us_sort_values total_engagement first_rows m1
      in new_figure
           (px_bar (us_objects m2 ! top_users)
              (''total_engagement'', IntD \<circ> total_engagement) (''user'', StrD \<circ> user) ''h''
              ''Top 10 Most Engaged Users (MapReduce 3)''
              [(''user'', ''User ID''), (''total_engagement'', ''Total Engagement (Likes + Retweets)'')]
              ''Plasma_r'')
           m2)"

text \<open>
  The tables the global names stand for. The summary card builder takes the length of
  two of them and the sum of a column; it calls nothing that makes or changes an
  object.
\<close>

definition tables_of :: "('t, 'm) module_state_scheme \<Rightarrow> 't globals" where
  "tables_of s =
     \<lparr>word_count_df = wc_objects s ! word_count_df_ref s,
      daily_sentiment_df = ds_objects s ! daily_sentiment_df_ref s,
      user_stats_df = us_objects s ! user_stats_df_ref s,
      cleaned_tweets_df = tw_objects s ! cleaned_tweets_df_ref s,
      emotions_sample_df = tw_objects s ! emotions_sample_df_ref s\<rparr>"

definition create_summary_card_st ::
  "('t, 'm) module_state_scheme \<Rightarrow> (py_error + component) \<times> ('t, 'm) module_state_scheme" where
  "create_summary_card_st s =
     (let total_tweets = length (tw_objects s ! cleaned_tweets_df_ref s);
          unique_users = length (us_objects s ! user_stats_df_ref s)
      in case true_divide
                (series_sum (map total_likes (us_objects s ! user_stats_df_ref s))) total_tweets of
           Inl e \<Rightarrow> (Inl e, s)
         | Inr ratio \<Rightarrow>
             (let avg_likes = py_round ratio 2
              in (Inr (Div (Some ''row'') []
                   [Div (Some ''four columns'') card_style
                      [H3 (Text (format_thousands total_tweets)) [(''color'', ''#003366'')],
                       P ''Total Tweets Processed''],
                    Div (Some ''four columns'') card_style
                      [H3 (Text (format_thousands unique_users)) [(''color'', ''#003366'')],
                       P ''Unique Users Analyzed''],
                    Div (Some ''four columns'') card_style
                      [H3 (FloatText (the_float avg_likes)) [(''color'', ''#003366'')],
                       P ''Avg. Likes per Tweet'']]), s)))"

text \<open>
  The assignment \<^verbatim>\<open>app.layout = ...\<close>: the children of the page are evaluated in their
  order, the summary card first, then the three charts, each builder called with the
  reference its global name holds; an exception of the card ends the evaluation.
\<close>

definition layout_st ::
  "('t, 'm) module_state_scheme \<Rightarrow> (py_error + component) \<times> ('t, 'm) module_state_scheme" where
  "layout_st s =
     (case create_summary_card_st s of
        (Inl e, s0) \<Rightarrow> (Inl e, s0)
      | (Inr summary, s0) \<Rightarrow>
          (let (words, s1) = create_word_count_chart_st (word_count_df_ref s0) s0;
               (users, s2) = create_user_engagement_chart_st (user_stats_df_ref s1) s1;
               (sentiment, s3) = create_sentiment_line_chart_st (daily_sentiment_df_ref s2) s2
           in (Inr (Div None [(''backgroundColor'', ''#f8f9fa''), (''padding'', ''20px'')]
                 [H1 ''Social Media Analysis Dashboard''
                    [(''textAlign'', ''center''), (''color'', ''#003366''), (''margin-bottom'', ''30px'')],
                  H2 ''Key Metrics Summary'' [(''color'', ''#333333''), (''textAlign'', ''center'')],
                  summary,
                  Hr,
                  Div (Some ''row'') []
                    [Div (Some ''six columns'') []
                       [H3 (Text ''Text Analysis'') [(''color'', ''#333333'')],
                        Graph (fig_objects s3 ! words)],
                     Div (Some ''six columns'') []
                       [H3 (Text ''User Performance'') [(''color'', ''#333333'')],
                        Graph (fig_objects s3 ! users)]],
                  Hr,
                  Div (Some ''row'') []
                    [Div (Some ''twelve columns'') []
                       [H3 (Text ''Time-Series Analysis'') [(''color'', ''#333333'')],
                        Graph (fig_objects s3 ! sentiment)]]]),
               s3)))"

definition assign_layout_st ::
  "('t, 'm) module_state_scheme \<Rightarrow> (py_error + unit) \<times> ('t, 'm) module_state_scheme" where
  "assign_layout_st s =
     (case layout_st s of
        (Inl e, s') \<Rightarrow> (Inl e, s')
      | (Inr tree, s') \<Rightarrow> (Inr (), s'\<lparr>layout_attr := Some tree\<rparr>))"

text \<open>
  The state loading leaves: one object for each loaded table, no figure, each global
  name bound to its table, and no layout. A state is well formed when every global
  name refers to an object there is. A memory keeps the tables of an earlier one when
  every table object of the earlier one is there, at its reference and with its rows.
\<close>

definition state_after_load :: "'t globals \<Rightarrow> 't module_state" where
  "state_after_load g =
     \<lparr>wc_objects = [word_count_df g], ds_objects = [daily_sentiment_df g],
      us_objects = [user_stats_df g], tw_objects = [cleaned_tweets_df g, emotions_sample_df g],
      fig_objects = [],
      word_count_df_ref = 0, daily_sentiment_df_ref = 0, user_stats_df_ref = 0,
      cleaned_tweets_df_ref = 0, emotions_sample_df_ref = 1, layout_attr = None\<rparr>"

definition tables_kept :: "('t, 'm) memory_scheme \<Rightarrow> ('t, 'm) memory_scheme \<Rightarrow> bool" where
  "tables_kept m m' \<longleftrightarrow>
     take (length (wc_objects m)) (wc_objects m') = wc_objects m
     \<and> take (length (ds_objects m)) (ds_objects m') = ds_objects m
     \<and> take (length (us_objects m)) (us_objects m') = us_objects m
     \<and> take (length (tw_objects m)) (tw_objects m') = tw_objects m"

definition valid_refs :: "('t, 'm) module_state_scheme \<Rightarrow> bool" where
  "valid_refs s \<longleftrightarrow>
     word_count_df_ref s < length (wc_objects s)
     \<and> daily_sentiment_df_ref s < length (ds_objects s)
     \<and> user_stats_df_ref s < length (us_objects s)
     \<and> cleaned_tweets_df_ref s < length (tw_objects s)
     \<and> emotions_sample_df_ref s < length (tw_objects s)"

subsection \<open>Example inputs\<close>

text \<open>
  A word-count table of 21 rows whose last row counts more than two of the first 20, a
  user-stats table of 11 rows, a sentiment table whose dates are not in order, and
  files on disk that hold them, with a date parser for the three date texts.
\<close>

definition wc_example :: "word_count_row list" where
  "wc_example =
     [\<lparr>word = ''the'', total_count = 500\<rparr>, \<lparr>word = ''a'', total_count = 450\<rparr>,
      \<lparr>word = ''zip'', total_count = 5\<rparr>, \<lparr>word = ''to'', total_count = 400\<rparr>,
      \<lparr>word = ''of'', total_count = 380\<rparr>, \<lparr>word = ''and'', total_count = 350\<rparr>,
      \<lparr>word = ''in'', total_count = 300\<rparr>, \<lparr>word = ''is'', total_count = 280\<rparr>,
      \<lparr>word = ''you'', total_count = 260\<rparr>, \<lparr>word = ''that'', total_count = 240\<rparr>,
      \<lparr>word = ''for'', total_count = 220\<rparr>, \<lparr>word = ''on'', total_count = 200\<rparr>,
      \<lparr>word = ''with'', total_count = 180\<rparr>, \<lparr>word = ''this'', total_count = 160\<rparr>,
      \<lparr>word = ''be'', total_count = 140\<rparr>, \<lparr>word = ''are'', total_count = 120\<rparr>,
      \<lparr>word = ''at'', total_count = 100\<rparr>, \<lparr>word = ''not'', total_count = 80\<rparr>,
      \<lparr>word = ''have'', total_count = 60\<rparr>, \<lparr>word = ''qua'', total_count = 3\<rparr>,
      \<lparr>word = ''it'', total_count = 10\<rparr>]"

definition us_example :: "user_stats_row list" where
  "us_example =
     [\<lparr>user = ''u01'', total_engagement = 90, total_likes = 50\<rparr>,
      \<lparr>user = ''u02'', total_engagement = 20, total_likes = 12\<rparr>,
      \<lparr>user = ''u03'', total_engagement = 70, total_likes = 40\<rparr>,
      \<lparr>user = ''u04'', total_engagement = 60, total_likes = 33\<rparr>,
      \<lparr>user = ''u05'', total_engagement = 50, total_likes = 25\<rparr>,
      \<lparr>user = ''u06'', total_engagement = 40, total_likes = 21\<rparr>,
      \<lparr>user = ''u07'', total_engagement = 30, total_likes = 16\<rparr>,
      \<lparr>user = ''u08'', total_engagement = 80, total_likes = 44\<rparr>,
      \<lparr>user = ''u09'', total_engagement = 10, total_likes = 6\<rparr>,
      \<lparr>user = ''u10'', total_engagement = 4, total_likes = 2\<rparr>,
      \<lparr>user = ''u11'', total_engagement = 100, total_likes = 51\<rparr>]"

definition ds_example :: "timestamp daily_sentiment_row list" where
  "ds_example =
     [\<lparr>date = 20240103, avg_sentiment = 1 / 4\<rparr>,
      \<lparr>date = 20240101, avg_sentiment = - 1 / 2\<rparr>,
      \<lparr>date = 20240102, avg_sentiment = 0\<rparr>]"

definition parse_example :: "string \<Rightarrow> timestamp option" where
  "parse_example =
     map_of [(''2024-01-03'', 20240103), (''2024-01-01'', 20240101), (''2024-01-02'', 20240102)]"

definition files_example :: "unit files" where
  "files_example =
     \<lparr>mapreduce_word_count_csv = Csv wc_example,
      mapreduce_daily_sentiment_csv =
        Csv [\<lparr>date = ''2024-01-03'', avg_sentiment = 1 / 4\<rparr>,
             \<lparr>date = ''2024-01-01'', avg_sentiment = - 1 / 2\<rparr>,
             \<lparr>date = ''2024-01-02'', avg_sentiment = 0\<rparr>],
      mapreduce_user_stats_csv = Csv us_example,
      tweets_cleaned_csv = Csv (replicate 1234 ())\<rparr>"

definition tables_example :: "unit tables" where
  "tables_example =
     \<lparr>word_count_df = wc_example, daily_sentiment_df = ds_example,
      user_stats_df = us_example, cleaned_tweets_df = replicate 1234 ()\<rparr>"

section \<open>Properties\<close>

subsection \<open>Truncation and sorting\<close>

lemma marks_px_bar:
  "marks (px_bar rows (cx, fx) (cy, fy) orient ttl labels colors) = map (\<lambda>r. (fx r, fy r)) rows"
  by (simp add: marks_def px_bar_def zip_map_map zip_same_conv_map)

lemma mset_top_rows: "mset (sort_values key (head n df)) = mset (take n df)"
  by (simp add: sort_values_def head_def)

lemma sorted_top_rows: "sorted (map key (sort_values key (head n df)))"
  by (simp add: sort_values_def)

lemma length_top_rows: "length (sort_values key (head n df)) = min (length df) n"
  by (simp add: sort_values_def head_def)

lemma head_head: "head n (take n df) = head n df"
  by (simp add: head_def)

lemma word_in_top_rows:
  assumes "distinct (map word df)" "n \<le> i" "i < length df"
  shows "word (df ! i) \<notin> word ` set (take n df)"
proof
  assume "word (df ! i) \<in> word ` set (take n df)"
  then obtain j where j: "j < n" "j < length df" "word (df ! j) = word (df ! i)"
    by (auto simp: in_set_conv_nth)
  with assms have "j = i"
    by (metis distinct_conv_nth length_map nth_map)
  with j assms show False by simp
qed

text \<open>
  C1. On a word-count table of at least 20 rows the word-count chart shows exactly the
  first 20 rows of the table as it stands: its bars are the (count, word) pairs of a
  rearrangement of those 20 rows that ascends by \<open>total_count\<close>, there are exactly 20
  of them, the chart is the chart of the first 20 rows alone, and, the words being
  distinct, the word of no later row is among the bars, whatever its count.
\<close>

theorem C1_word_count_first_20:
  assumes "20 \<le> length df"
  shows "(\<exists>shown. marks (create_word_count_chart df) = map (\<lambda>r. (IntD (total_count r), StrD (word r))) shown
            \<and> mset shown = mset (take 20 df) \<and> sorted (map total_count shown))
         \<and> length (marks (create_word_count_chart df)) = 20
         \<and> create_word_count_chart df = create_word_count_chart (take 20 df)
         \<and> (distinct (map word df) \<longrightarrow>
              (\<forall>i. 20 \<le> i \<and> i < length df \<longrightarrow>
                 StrD (word (df ! i)) \<notin> set (data_y (create_word_count_chart df))))"
proof (intro conjI impI allI)
  let ?shown = "sort_values total_count (head 20 df)"
  have m: "marks (create_word_count_chart df) = map (\<lambda>r. (IntD (total_count r), StrD (word r))) ?shown"
    by (simp add: create_word_count_chart_def Let_def marks_px_bar)
  show "\<exists>shown. marks (create_word_count_chart df) = map (\<lambda>r. (IntD (total_count r), StrD (word r))) shown
            \<and> mset shown = mset (take 20 df) \<and> sorted (map total_count shown)"
    using m mset_top_rows sorted_top_rows by blast
  show "length (marks (create_word_count_chart df)) = 20"
    using assms by (simp add: m length_top_rows)
  show "create_word_count_chart df = create_word_count_chart (take 20 df)"
    by (simp add: create_word_count_chart_def Let_def head_head)
next
  fix i
  assume d: "distinct (map word df)" and i: "20 \<le> i \<and> i < length df"
  have "set (data_y (create_word_count_chart df)) = (StrD \<circ> word) ` set (take 20 df)"
    by (simp add: create_word_count_chart_def Let_def px_bar_def sort_values_def head_def image_comp)
  moreover have "word (df ! i) \<notin> word ` set (take 20 df)"
    using word_in_top_rows d i by blast
  ultimately show "StrD (word (df ! i)) \<notin> set (data_y (create_word_count_chart df))"
    by auto
qed

theorem C1_witness:
  "20 \<le> length wc_example \<and> distinct (map word wc_example)
   \<and> data_x (create_word_count_chart wc_example) =
       map IntD [3, 5, 60, 80, 100, 120, 140, 160, 180, 200, 220, 240, 260, 280, 300, 350, 380, 400, 450, 500]
   \<and> length (marks (create_word_count_chart wc_example)) = 20
   \<and> StrD ''it'' \<notin> set (data_y (create_word_count_chart wc_example))"
  using C1_word_count_first_20 [of wc_example]
  by (simp add: wc_example_def create_word_count_chart_def Let_def px_bar_def sort_values_def
      head_def marks_def)

text \<open>
  C5. On a user-stats table of at least 10 rows the engagement chart is a horizontal
  bar chart of exactly 10 bars: the (engagement, user) pairs of a rearrangement of the
  first 10 rows of the table as it stands, ascending by \<open>total_engagement\<close>.
\<close>

theorem C5_user_engagement_first_10:
  assumes "10 \<le> length df"
  shows "(\<exists>shown. marks (create_user_engagement_chart df) = map (\<lambda>r. (IntD (total_engagement r), StrD (user r))) shown
            \<and> mset shown = mset (take 10 df) \<and> sorted (map total_engagement shown))
         \<and> length (marks (create_user_engagement_chart df)) = 10
         \<and> trace_type (create_user_engagement_chart df) = ''bar''
         \<and> orientation (create_user_engagement_chart df) = ''h''"
proof -
  let ?shown = "sort_values total_engagement (head 10 df)"
  have m: "marks (create_user_engagement_chart df) = map (\<lambda>r. (IntD (total_engagement r), StrD (user r))) ?shown"
    by (simp add: create_user_engagement_chart_def Let_def marks_px_bar)
  have "\<exists>shown. marks (create_user_engagement_chart df) = map (\<lambda>r. (IntD (total_engagement r), StrD (user r))) shown
            \<and> mset shown = mset (take 10 df) \<and> sorted (map total_engagement shown)"
    using m mset_top_rows sorted_top_rows by blast
  moreover have "length (marks (create_user_engagement_chart df)) = 10"
    using assms by (simp add: m length_top_rows)
  moreover have "trace_type (create_user_engagement_chart df) = ''bar''"
    and "orientation (create_user_engagement_chart df) = ''h''"
    by (simp_all add: create_user_engagement_chart_def Let_def px_bar_def)
  ultimately show ?thesis by blast
qed

theorem C5_witness:
  "10 \<le> length us_example
   \<and> marks (create_user_engagement_chart us_example) =
       [(IntD 4, StrD ''u10''), (IntD 10, StrD ''u09''), (IntD 20, StrD ''u02''), (IntD 30, StrD ''u07''),
        (IntD 40, StrD ''u06''), (IntD 50, StrD ''u05''), (IntD 60, StrD ''u04''), (IntD 70, StrD ''u03''),
        (IntD 80, StrD ''u08''), (IntD 90, StrD ''u01'')]
   \<and> orientation (create_user_engagement_chart us_example) = ''h''"
  using C5_user_engagement_first_10 [of us_example]
  by (simp add: us_example_def create_user_engagement_chart_def Let_def px_bar_def sort_values_def
      head_def marks_def)

subsection \<open>The sentiment line\<close>

lemma datum_dates_DateD: "datum_dates (map (DateD \<circ> f) rows) = map f rows"
  by (induction rows) simp_all

text \<open>
  C2, as the spec states it, fails: the builder hands the table to plotly as it is, and
  plotly draws the points in the order of the rows. On a table of three rows whose
  dates are not in order the chart has three points and their x values are not
  ascending.
\<close>

theorem C2_counterexample:
  "length (marks (create_sentiment_line_chart ds_example)) = 3
   \<and> datum_dates (data_x (create_sentiment_line_chart ds_example)) = [20240103, 20240101, 20240102]
   \<and> \<not> sorted (datum_dates (data_x (create_sentiment_line_chart ds_example)))"
  by (simp add: ds_example_def create_sentiment_line_chart_def Let_def px_line_def update_traces_def marks_def)

text \<open>
  C2, amended. For every daily-sentiment table of N rows the line chart has exactly N
  points, the (date, average sentiment) pairs of the rows in the order of the rows; its
  x values ascend by date exactly when the rows of the table do.
\<close>

theorem C2_sentiment_points_in_row_order:
  "marks (create_sentiment_line_chart df) = map (\<lambda>r. (DateD (date r), NumD (avg_sentiment r))) df
   \<and> length (marks (create_sentiment_line_chart df)) = length df
   \<and> datum_dates (data_x (create_sentiment_line_chart df)) = map date df
   \<and> sorted (datum_dates (data_x (create_sentiment_line_chart df))) = sorted (map date df)"
proof -
  have x: "data_x (create_sentiment_line_chart df) = map (DateD \<circ> date) df"
    and y: "data_y (create_sentiment_line_chart df) = map (NumD \<circ> avg_sentiment) df"
    by (simp_all add: create_sentiment_line_chart_def Let_def px_line_def update_traces_def)
  have "marks (create_sentiment_line_chart df) = map (\<lambda>r. (DateD (date r), NumD (avg_sentiment r))) df"
    by (simp add: marks_def x y zip_map_map zip_same_conv_map)
  then show ?thesis
    by (simp add: x datum_dates_DateD)
qed

subsection \<open>Formatting and rounding\<close>

lemma digit_value_digit_char: "d < 10 \<Longrightarrow> digit_value (digit_char d) = d"
proof -
  assume "d < 10"
  then have "d \<in> {0, 1, 2, 3, 4, 5, 6, 7, 8, 9}" by auto
  then show ?thesis
    by (auto simp: digit_value_def digit_char_def)
qed

lemma digit_char_not_comma: "d < 10 \<Longrightarrow> digit_char d \<noteq> CHR '',''"
proof -
  assume "d < 10"
  then have "d \<in> {0, 1, 2, 3, 4, 5, 6, 7, 8, 9}" by auto
  then show ?thesis
    by (auto simp: digit_char_def)
qed

lemma read_decimal_snoc: "read_decimal (s @ [c]) = 10 * read_decimal s + digit_value c"
  by (simp add: read_decimal_def)

lemma read_decimal_decimal: "read_decimal (decimal n) = n"
proof (induction n rule: decimal.induct)
  case (1 n)
  show ?case
  proof (cases "n < 10")
    case True
    then show ?thesis
      by (subst decimal.simps) (simp add: read_decimal_def digit_value_digit_char)
  next
    case False
    have "read_decimal (decimal n) =
        10 * read_decimal (decimal (n div 10)) + digit_value (digit_char (n mod 10))"
      using False by (subst decimal.simps) (simp add: read_decimal_snoc)
    also have "\<dots> = 10 * (n div 10) + n mod 10"
      using False "1.IH" by (simp add: digit_value_digit_char)
    finally show ?thesis by simp
  qed
qed

lemma decimal_no_comma: "CHR '','' \<notin> set (decimal n)"
proof (induction n rule: decimal.induct)
  case (1 n)
  show ?case
  proof (cases "n < 10")
    case True
    then show ?thesis
      using digit_char_not_comma [of n] by (subst decimal.simps) auto
  next
    case False
    then have "set (decimal n) = set (decimal (n div 10)) \<union> {digit_char (n mod 10)}"
      by (subst decimal.simps) simp
    then show ?thesis
      using False "1.IH" digit_char_not_comma [of "n mod 10"] by auto
  qed
qed

lemma filter_comma_groups:
  "filter (\<lambda>c. c \<noteq> CHR '','') (comma_groups ds) = filter (\<lambda>c. c \<noteq> CHR '','') ds"
  by (induction ds rule: comma_groups.induct) simp_all

lemma read_thousands_format: "read_thousands (format_thousands n) = n"
proof -
  let ?keep = "\<lambda>c. c \<noteq> CHR '',''"
  have "filter ?keep (format_thousands n) = rev (filter ?keep (comma_groups (rev (decimal n))))"
    unfolding format_thousands_def by (rule rev_filter [symmetric])
  also have "\<dots> = rev (filter ?keep (rev (decimal n)))"
    by (simp only: filter_comma_groups)
  also have "\<dots> = filter ?keep (decimal n)"
    by (simp only: rev_filter rev_rev_ident)
  also have "\<dots> = decimal n"
    using decimal_no_comma [of n] by (auto simp: filter_id_conv)
  finally show ?thesis
    by (simp add: read_thousands_def read_decimal_decimal)
qed


subsection \<open>Floating-point arithmetic\<close>

lemma pow2_powr: "pow2 e = 2 powr (of_int e)"
  by (simp add: pow2_def powr_int)

lemma pow2_pos: "0 < pow2 e"
  by (simp add: pow2_powr)

lemma pow2_mono: "a \<le> b \<Longrightarrow> pow2 a \<le> pow2 b"
  by (simp add: pow2_powr)

lemma pow2_diff: "pow2 (a - b) = pow2 a / pow2 b"
  by (simp add: pow2_powr powr_diff)

lemma pow2_nat: "pow2 (int k) = 2 ^ k"
  by (simp add: pow2_def)

lemma bisect_le:
  "pow2 e0 \<le> a \<Longrightarrow>
   pow2 (fold (\<lambda>step e. if pow2 (e + step) \<le> a then e + step else e) steps e0) \<le> a"
  by (induction steps arbitrary: e0) simp_all

lemma binade_le: "pow2 (- 1022) \<le> \<bar>x\<bar> \<Longrightarrow> pow2 (binade x) \<le> \<bar>x\<bar>"
  unfolding binade_def by (rule bisect_le)

lemma rint_near: "\<bar>of_int (rint q) - q\<bar> \<le> 1 / 2"
  unfolding rint_def Let_def by (auto simp: abs_if) linarith+

lemma rint_0: "rint 0 = 0"
  by (simp add: rint_def)

lemma float64_0: "float64 0 = Finite 0"
  using pow2_pos [of 1024] by (simp add: float64_def Let_def rint_0 not_le)

lemma float64_normal:
  assumes lo: "pow2 (- 1022) \<le> \<bar>x\<bar>" and hi: "\<bar>x\<bar> \<le> pow2 1000"
  shows "float64 x = Finite (float_value (float64 x))
       \<and> \<bar>float_value (float64 x) - x\<bar> \<le> \<bar>x\<bar> / 2 ^ 53"
proof -
  define ulp where "ulp = pow2 (binade x - 52)"
  define v where "v = of_int (rint (x / ulp)) * ulp"
  have ulp_pos: "0 < ulp" by (simp add: ulp_def pow2_pos)
  have ulp_eq: "ulp = pow2 (binade x) / 2 ^ 52"
    unfolding ulp_def pow2_diff by (simp add: pow2_def)
  have "\<bar>v - x\<bar> = \<bar>of_int (rint (x / ulp)) - x / ulp\<bar> * ulp"
    using ulp_pos by (simp add: v_def abs_mult [symmetric] field_simps)
  also have "\<dots> \<le> 1 / 2 * ulp"
    using rint_near [of "x / ulp"] ulp_pos by (intro mult_right_mono) simp_all
  also have "\<dots> = pow2 (binade x) / 2 ^ 53"
    by (simp add: ulp_eq)
  also have "\<dots> \<le> \<bar>x\<bar> / 2 ^ 53"
    using binade_le [OF lo] by (simp add: divide_right_mono)
  finally have err: "\<bar>v - x\<bar> \<le> \<bar>x\<bar> / 2 ^ 53" .
  have x_pos: "0 < \<bar>x\<bar>"
    using lo pow2_pos [of "- 1022"] by linarith
  have "\<bar>v\<bar> \<le> \<bar>x\<bar> + \<bar>x\<bar> / 2 ^ 53"
    using err by linarith
  also have "\<dots> \<le> 2 * \<bar>x\<bar>"
    by (simp add: field_simps)
  also have "\<dots> \<le> 2 * pow2 1000"
    using hi by simp
  also have "\<dots> < pow2 1024"
    by (simp add: pow2_def)
  finally have no_inf: "\<not> pow2 1024 \<le> \<bar>v\<bar>" by simp
  have "\<bar>x\<bar> / 2 ^ 53 < \<bar>x\<bar>"
    using x_pos by (simp add: field_simps)
  with err have "v \<noteq> 0" by auto
  with no_inf have "float64 x = Finite v"
    unfolding float64_def Let_def ulp_def [symmetric] v_def [symmetric] by simp
  with err show ?thesis by simp
qed

lemma quotient_error:
  fixes a b s m u :: real
  assumes a: "\<bar>a - s\<bar> \<le> \<bar>s\<bar> * u" and b: "\<bar>b - m\<bar> \<le> m * u"
    and m: "0 < m" and u: "0 \<le> u" "u \<le> 1 / 4"
  shows "\<bar>a / b - s / m\<bar> \<le> 3 * u * \<bar>s / m\<bar>"
proof -
  have b_lo: "m * (1 - u) \<le> b"
    using b by (simp add: abs_le_iff algebra_simps)
  have "0 < m * (1 - u)"
    using m u by simp
  with b_lo have b_pos: "0 < b" by linarith
  have "a / b - s / m = ((a - s) * m + s * (m - b)) / (b * m)"
    using b_pos m by (simp add: field_simps)
  then have "\<bar>a / b - s / m\<bar> = \<bar>(a - s) * m + s * (m - b)\<bar> / (b * m)"
    using b_pos m by (simp add: abs_mult)
  also have "\<bar>(a - s) * m + s * (m - b)\<bar> \<le> \<bar>a - s\<bar> * m + \<bar>s\<bar> * \<bar>m - b\<bar>"
    using m by (metis abs_mult abs_of_pos abs_triangle_ineq)
  also have "\<dots> \<le> (\<bar>s\<bar> * u) * m + \<bar>s\<bar> * (m * u)"
    using a b m by (intro add_mono mult_right_mono mult_left_mono) (simp_all add: abs_minus_commute)
  also have "\<dots> = 2 * u * \<bar>s\<bar> * m" by simp
  finally have 1: "\<bar>a / b - s / m\<bar> \<le> 2 * u * \<bar>s\<bar> * m / (b * m)"
    using b_pos m by (simp add: divide_right_mono)
  have "2 * u * \<bar>s\<bar> * m / (b * m) = 2 * u * \<bar>s\<bar> / b"
    using m by simp
  also have "\<dots> \<le> 2 * u * \<bar>s\<bar> / (m * (1 - u))"
    using b_lo \<open>0 < m * (1 - u)\<close> u by (intro divide_left_mono) (simp_all add: b_pos)
  also have "\<dots> = (2 / (1 - u)) * (u * (\<bar>s\<bar> / m))"
    using m u by (simp add: field_simps)
  also have "\<dots> \<le> 3 * (u * (\<bar>s\<bar> / m))"
  proof (intro mult_right_mono)
    show "2 / (1 - u) \<le> 3" using u by (simp add: field_simps)
    show "0 \<le> u * (\<bar>s\<bar> / m)" using u m by simp
  qed
  finally have "2 * u * \<bar>s\<bar> * m / (b * m) \<le> 3 * u * \<bar>s / m\<bar>"
    using m by simp
  with 1 show ?thesis by linarith
qed

lemma average_error_chain:
  fixes Sr nr a b q y V u :: real and k :: int
  assumes nr: "0 < nr" and u: "0 \<le> u" "u \<le> 1 / 2 ^ 53"
    and a: "\<bar>a - Sr\<bar> \<le> \<bar>Sr\<bar> * u" and b: "\<bar>b - nr\<bar> \<le> nr * u"
    and q: "\<bar>q - a / b\<bar> \<le> \<bar>a / b\<bar> * u"
    and y: "\<bar>y - q * 100\<bar> \<le> \<bar>q * 100\<bar> * u"
    and k: "\<bar>of_int k - y\<bar> \<le> 1 / 2"
    and V: "\<bar>V - of_int k / 100\<bar> \<le> \<bar>of_int k / 100\<bar> * u"
  shows "\<bar>V - Sr / nr\<bar> \<le> 1 / 200 + (\<bar>Sr / nr\<bar> + 1) / 2 ^ 49"
proof -
  define t where "t = \<bar>Sr / nr\<bar>"
  define w where "w = t * u"
  have t: "0 \<le> t" by (simp add: t_def)
  have w: "0 \<le> w" "w \<le> t / 2 ^ 53"
  proof -
    show "0 \<le> w" using t u by (simp add: w_def)
    have "t * u \<le> t * (1 / 2 ^ 53)"
      using t u by (intro mult_left_mono)
    then show "w \<le> t / 2 ^ 53" by (simp add: w_def)
  qed
  have w3: "1000 * w \<le> t"
    using w t by simp
  have u4: "u \<le> 1 / 4" using u by simp
  have e1: "\<bar>a / b - Sr / nr\<bar> \<le> 3 * w"
    using quotient_error [OF a b nr u(1) u4] by (simp add: w_def t_def mult_ac)
  have "\<bar>a / b\<bar> \<le> 2 * t"
    using e1 w(1) w3 unfolding t_def by linarith
  then have "\<bar>a / b\<bar> * u \<le> 2 * t * u"
    using u by (intro mult_right_mono)
  with q have "\<bar>q - a / b\<bar> \<le> 2 * w" by (simp add: w_def)
  with e1 have e2: "\<bar>q - Sr / nr\<bar> \<le> 5 * w" by linarith
  have "\<bar>q\<bar> \<le> 2 * t"
    using e2 w(1) w3 unfolding t_def by linarith
  then have "\<bar>q * 100\<bar> * u \<le> 200 * t * u"
    using u by (intro mult_right_mono) (simp_all add: abs_mult)
  with y have "\<bar>y - q * 100\<bar> \<le> 200 * w" by (simp add: w_def)
  with e2 have e3: "\<bar>y - 100 * (Sr / nr)\<bar> \<le> 700 * w" by linarith
  with k have e4: "\<bar>of_int k - 100 * (Sr / nr)\<bar> \<le> 1 / 2 + 700 * w" by linarith
  have "\<bar>real_of_int k\<bar> \<le> 101 * t + 1 / 2"
    using e4 w(1) w3 unfolding t_def by linarith
  then have "\<bar>of_int k / 100\<bar> \<le> 2 * t + 1 / 200"
    using t by simp
  then have "\<bar>of_int k / 100\<bar> * u \<le> (2 * t + 1 / 200) * u"
    using u by (intro mult_right_mono)
  with V have e5: "\<bar>V - of_int k / 100\<bar> \<le> 2 * w + u / 200"
    by (simp add: w_def algebra_simps)
  have "\<bar>of_int k / 100 - Sr / nr\<bar> \<le> 1 / 200 + 7 * w"
    using e4 by linarith
  with e5 have "\<bar>V - Sr / nr\<bar> \<le> 1 / 200 + 9 * w + u / 200" by linarith
  also have "\<dots> \<le> 1 / 200 + (t + 1) / 2 ^ 49"
    using w u t by (simp add: field_simps)
  finally show ?thesis by (simp add: t_def)
qed

lemma pow2_small: "pow2 (- 1022) \<le> 1 / 2 ^ 70"
  by (simp add: pow2_def)

lemma pow2_big: "2 ^ 80 \<le> pow2 1000"
  by (simp add: pow2_def)

lemma float64_mid:
  assumes "lo \<le> \<bar>x\<bar>" and "\<bar>x\<bar> \<le> hi" and "1 / 2 ^ 70 \<le> lo" and "hi \<le> 2 ^ 80"
  shows "float64 x = Finite (float_value (float64 x))"
    and "\<bar>float_value (float64 x) - x\<bar> \<le> \<bar>x\<bar> * (1 / 2 ^ 53)"
    and "\<bar>x\<bar> / 2 \<le> \<bar>float_value (float64 x)\<bar>"
    and "\<bar>float_value (float64 x)\<bar> \<le> 2 * \<bar>x\<bar>"
proof -
  have n: "float64 x = Finite (float_value (float64 x))
       \<and> \<bar>float_value (float64 x) - x\<bar> \<le> \<bar>x\<bar> / 2 ^ 53"
    using assms pow2_small pow2_big by (intro float64_normal) linarith+
  then show "float64 x = Finite (float_value (float64 x))"
    and e: "\<bar>float_value (float64 x) - x\<bar> \<le> \<bar>x\<bar> * (1 / 2 ^ 53)"
    by simp_all
  have "\<bar>x\<bar> * (1 / 2 ^ 53) \<le> \<bar>x\<bar> / 2"
    by simp
  with e show "\<bar>x\<bar> / 2 \<le> \<bar>float_value (float64 x)\<bar>"
    and "\<bar>float_value (float64 x)\<bar> \<le> 2 * \<bar>x\<bar>"
    by linarith+
qed

lemma np_round_quotient_error:
  fixes S :: int and n :: nat
  assumes S: "- (2 ^ 63) \<le> S" "S < 2 ^ 63" and n: "0 < n" "n < 2 ^ 63"
  shows "\<bar>float_value (the_float (py_round (NpFloat64
            (float64 (float_value (float64 (of_int S)) / float_value (float64 (of_nat n))))) 2))
          - of_int S / of_nat n\<bar>
         \<le> 1 / 200 + (\<bar>of_int S / of_nat n\<bar> + 1) / 2 ^ 49"
proof (cases "S = 0")
  case True
  then show ?thesis
    by (simp add: float64_0 rint_0)
next
  case False
  define u :: real where "u = 1 / 2 ^ 53"
  define Sr :: real where "Sr = of_int S"
  define nr :: real where "nr = of_nat n"
  define a where "a = float_value (float64 Sr)"
  define b where "b = float_value (float64 nr)"
  define q where "q = float_value (float64 (a / b))"
  define y where "y = float_value (float64 (q * 100))"
  define k where "k = rint y"
  define V where "V = float_value (if k = 0 \<and> y < 0 then NegZero else float64 (of_int k / 100))"
  have Sr: "1 \<le> \<bar>Sr\<bar>" "\<bar>Sr\<bar> \<le> 2 ^ 63"
    using False S by (auto simp: Sr_def abs_if)
  have nr: "1 \<le> nr" "nr \<le> 2 ^ 63" "0 < nr"
    using n by (simp_all add: nr_def)
  have fa: "\<bar>a - Sr\<bar> \<le> \<bar>Sr\<bar> * u" "\<bar>Sr\<bar> / 2 \<le> \<bar>a\<bar>" "\<bar>a\<bar> \<le> 2 * \<bar>Sr\<bar>"
    using float64_mid(2-4) [OF Sr] by (simp_all add: a_def u_def)
  have fb: "\<bar>b - nr\<bar> \<le> nr * u" "\<bar>nr\<bar> / 2 \<le> \<bar>b\<bar>" "\<bar>b\<bar> \<le> 2 * \<bar>nr\<bar>"
    using float64_mid(2-4) [of 1 nr "2 ^ 63"] nr by (simp_all add: b_def u_def)
  have b_pos: "0 < \<bar>b\<bar>" using fb nr by linarith
  have x1: "1 / 2 ^ 65 \<le> \<bar>a / b\<bar>" "\<bar>a / b\<bar> \<le> 2 ^ 65"
  proof -
    have "(1 / 2) / 2 ^ 64 \<le> \<bar>a\<bar> / \<bar>b\<bar>"
      using fa fb Sr nr b_pos by (intro frac_le) simp_all
    then show "1 / 2 ^ 65 \<le> \<bar>a / b\<bar>" by simp
    have "\<bar>a\<bar> / \<bar>b\<bar> \<le> 2 ^ 64 / (1 / 2)"
      using fa fb Sr nr b_pos by (intro frac_le) simp_all
    then show "\<bar>a / b\<bar> \<le> 2 ^ 65" by simp
  qed
  have fq: "float64 (a / b) = Finite q" "\<bar>q - a / b\<bar> \<le> \<bar>a / b\<bar> * u"
    "\<bar>a / b\<bar> / 2 \<le> \<bar>q\<bar>" "\<bar>q\<bar> \<le> 2 * \<bar>a / b\<bar>"
    using float64_mid [OF x1] by (simp_all add: q_def u_def)
  have x2: "1 / 2 ^ 66 \<le> \<bar>q * 100\<bar>" "\<bar>q * 100\<bar> \<le> 2 ^ 73"
    using fq(3,4) x1 by (auto simp: abs_mult)
  have fy: "float64 (q * 100) = Finite y" "\<bar>y - q * 100\<bar> \<le> \<bar>q * 100\<bar> * u"
    "\<bar>y\<bar> \<le> 2 * \<bar>q * 100\<bar>"
    using float64_mid(1,2,4) [OF x2] by (simp_all add: y_def u_def)
  have k: "\<bar>of_int k - y\<bar> \<le> 1 / 2"
    unfolding k_def by (rule rint_near)
  have fV: "\<bar>V - of_int k / 100\<bar> \<le> \<bar>of_int k / 100\<bar> * u"
  proof (cases "k = 0")
    case True
    then show ?thesis by (simp add: V_def float64_0)
  next
    case False
    then have "1 \<le> \<bar>real_of_int k\<bar>" by (auto simp: abs_if)
    moreover have "\<bar>real_of_int k\<bar> \<le> 2 ^ 76"
    proof -
      have "\<bar>real_of_int k\<bar> \<le> \<bar>y\<bar> + 1 / 2" using k by linarith
      also have "\<dots> \<le> 2 * 2 ^ 73 + 1 / 2" using fy(3) x2(2) by linarith
      also have "\<dots> \<le> 2 ^ 76" by simp
      finally show ?thesis .
    qed
    ultimately have "1 / 100 \<le> \<bar>real_of_int k / 100\<bar>" "\<bar>real_of_int k / 100\<bar> \<le> 2 ^ 76"
      by simp_all
    from float64_mid(2) [OF this] False show ?thesis
      by (simp add: V_def u_def)
  qed
  have "the_float (py_round (NpFloat64 (float64 (a / b))) 2) =
      (if k = 0 \<and> y < 0 then NegZero else float64 (of_int k / 100))"
    by (simp add: fq(1) fy(1) k_def)
  then have "float_value (the_float (py_round (NpFloat64 (float64 (a / b))) 2)) = V"
    by (simp add: V_def)
  moreover have "\<bar>V - Sr / nr\<bar> \<le> 1 / 200 + (\<bar>Sr / nr\<bar> + 1) / 2 ^ 49"
    using nr(3) _ _ fa(1) fb(1) fq(2) fy(2) k fV
    by (rule average_error_chain) (simp_all add: u_def)
  ultimately show ?thesis
    by (simp add: a_def b_def Sr_def nr_def)
qed


lemma np_round_quotient_value:
  fixes S :: int and n :: nat
  assumes S: "- (2 ^ 63) \<le> S" "S < 2 ^ 63" and n: "0 < n" "n < 2 ^ 63"
  shows "the_float (py_round (NpFloat64
            (float64 (float_value (float64 (of_int S)) / float_value (float64 (of_nat n))))) 2) =
         (if rint (float_value (float64 (float_value (float64
                 (float_value (float64 (of_int S)) / float_value (float64 (of_nat n)))) * 100))) = 0
             \<and> float_value (float64 (float_value (float64
                 (float_value (float64 (of_int S)) / float_value (float64 (of_nat n)))) * 100)) < 0
          then NegZero
          else float64 (of_int (rint (float_value (float64 (float_value (float64
                 (float_value (float64 (of_int S)) / float_value (float64 (of_nat n)))) * 100))))
                        / 100))"
proof (cases "S = 0")
  case True
  then show ?thesis
    by (simp add: float64_0 rint_0)
next
  case False
  define Sr :: real where "Sr = of_int S"
  define nr :: real where "nr = of_nat n"
  define a where "a = float_value (float64 Sr)"
  define b where "b = float_value (float64 nr)"
  define q where "q = float_value (float64 (a / b))"
  define y where "y = float_value (float64 (q * 100))"
  have Sr: "1 \<le> \<bar>Sr\<bar>" "\<bar>Sr\<bar> \<le> 2 ^ 63"
    using False S by (auto simp: Sr_def abs_if)
  have nr: "1 \<le> nr" "nr \<le> 2 ^ 63" "0 < nr"
    using n by (simp_all add: nr_def)
  have fa: "\<bar>Sr\<bar> / 2 \<le> \<bar>a\<bar>" "\<bar>a\<bar> \<le> 2 * \<bar>Sr\<bar>"
    using float64_mid(3,4) [OF Sr] by (simp_all add: a_def)
  have fb: "\<bar>nr\<bar> / 2 \<le> \<bar>b\<bar>" "\<bar>b\<bar> \<le> 2 * \<bar>nr\<bar>"
    using float64_mid(3,4) [of 1 nr "2 ^ 63"] nr by (simp_all add: b_def)
  have b_pos: "0 < \<bar>b\<bar>" using fb nr by linarith
  have x1: "1 / 2 ^ 65 \<le> \<bar>a / b\<bar>" "\<bar>a / b\<bar> \<le> 2 ^ 65"
  proof -
    have "(1 / 2) / 2 ^ 64 \<le> \<bar>a\<bar> / \<bar>b\<bar>"
      using fa fb Sr nr b_pos by (intro frac_le) simp_all
    then show "1 / 2 ^ 65 \<le> \<bar>a / b\<bar>" by simp
    have "\<bar>a\<bar> / \<bar>b\<bar> \<le> 2 ^ 64 / (1 / 2)"
      using fa fb Sr nr b_pos by (intro frac_le) simp_all
    then show "\<bar>a / b\<bar> \<le> 2 ^ 65" by simp
  qed
  have fq: "float64 (a / b) = Finite q" "\<bar>a / b\<bar> / 2 \<le> \<bar>q\<bar>" "\<bar>q\<bar> \<le> 2 * \<bar>a / b\<bar>"
    using float64_mid(1,3,4) [OF x1] by (simp_all add: q_def)
  have x2: "1 / 2 ^ 66 \<le> \<bar>q * 100\<bar>" "\<bar>q * 100\<bar> \<le> 2 ^ 73"
    using fq(2,3) x1 by (auto simp: abs_mult)
  have fy: "float64 (q * 100) = Finite y"
    using float64_mid(1) [OF x2] by (simp add: y_def)
  have "the_float (py_round (NpFloat64 (float64 (a / b))) 2) =
      (if rint y = 0 \<and> y < 0 then NegZero else float64 (of_int (rint y) / 100))"
    by (simp add: fq(1) fy)
  then show ?thesis
    by (simp add: a_def b_def Sr_def nr_def q_def y_def)
qed

subsection \<open>The summary card\<close>

lemma int64_range: "- (2 ^ 63) \<le> int64 k \<and> int64 k < 2 ^ 63"
  using pos_mod_sign [of "2 ^ 64" "k + 2 ^ 63"] pos_mod_bound [of "2 ^ 64" "k + 2 ^ 63"]
  by (simp add: int64_def)

lemma int64_id: "- (2 ^ 63) \<le> k \<Longrightarrow> k < 2 ^ 63 \<Longrightarrow> int64 k = k"
  by (simp add: int64_def)

lemma true_divide_series_sum:
  "true_divide (series_sum col) n =
     (if col = [] then (if n = 0 then Inl ZeroDivisionError else Inr (PyFloat (Finite 0)))
      else Inr (NpFloat64
             (if n = 0 then (if 0 < int64 (sum_list col) then PosInf
                             else if int64 (sum_list col) < 0 then NegInf else NaN)
              else float64 (float_value (float64 (of_int (int64 (sum_list col))))
                            / float_value (float64 (of_nat n))))))"
  by (simp add: series_sum_def float64_0)

lemma summary_card_stats:
  assumes "create_summary_card g = Inr summary"
  shows "\<exists>ratio. true_divide (series_sum (map total_likes (user_stats_df g)))
                   (length (cleaned_tweets_df g)) = Inr ratio
         \<and> stat_blocks summary =
             [(''Total Tweets Processed'', Text (format_thousands (length (cleaned_tweets_df g)))),
              (''Unique Users Analyzed'', Text (format_thousands (length (user_stats_df g)))),
              (''Avg. Likes per Tweet'', FloatText (the_float (py_round ratio 2)))]
         \<and> h3_contents summary =
             [Text (format_thousands (length (cleaned_tweets_df g))),
              Text (format_thousands (length (user_stats_df g))),
              FloatText (the_float (py_round ratio 2))]"
  using assms by (auto simp: create_summary_card_def Let_def split: sum.splits)

lemma summary_card_fails_iff:
  "create_summary_card g = Inl e \<longleftrightarrow>
     cleaned_tweets_df g = [] \<and> user_stats_df g = [] \<and> e = ZeroDivisionError"
  by (auto simp: create_summary_card_def Let_def true_divide_series_sum split: sum.splits if_splits)

lemma summary_card_ok:
  assumes "cleaned_tweets_df g \<noteq> [] \<or> user_stats_df g \<noteq> []"
  shows "\<exists>summary. create_summary_card g = Inr summary"
proof (cases "create_summary_card g")
  case (Inl e)
  with assms show ?thesis by (simp add: summary_card_fails_iff)
next
  case (Inr summary)
  then show ?thesis by blast
qed

lemma graphs_summary_card: "create_summary_card g = Inr summary \<Longrightarrow> graphs summary = []"
  by (auto simp: create_summary_card_def Let_def split: sum.splits)

lemma create_summary_card_cong:
  assumes "cleaned_tweets_df g = cleaned_tweets_df g'" and "user_stats_df g = user_stats_df g'"
  shows "create_summary_card g = create_summary_card g'"
  by (simp add: create_summary_card_def assms)

text \<open>
  C3, as the spec states it, fails: the average shown is not the rounded quotient of
  the sum of the likes by the tweet count. The sum is a 64-bit integer that wraps
  around: with one cleaned tweet and two users of 9223372036854775807 likes and of 1
  like, the sum divided by the tweet count is 9223372036854775808, and the card shows
  -9223372036854775808.0. And the rounding is NumPy's, which multiplies the float
  quotient by 100, rounds the product to an integer and divides by 100. With 203 likes
  and 200 cleaned tweets the quotient is 1.015, which rounded to two decimals is 1.02,
  and the card shows 1.01. With 107 likes and 40 cleaned tweets Python's \<^verbatim>\<open>round\<close> of
  the float quotient is 2.67, and the card shows 2.68.
\<close>

theorem C3_counterexample:
  "map_sum id stat_blocks
     (create_summary_card
        \<lparr>word_count_df = [], daily_sentiment_df = [],
         user_stats_df =
           [\<lparr>user = ''u01'', total_engagement = 9223372036854775807, total_likes = 9223372036854775807\<rparr>,
            \<lparr>user = ''u02'', total_engagement = 1, total_likes = 1\<rparr>],
         cleaned_tweets_df = [()]\<rparr>) =
     Inr [(''Total Tweets Processed'', Text ''1''), (''Unique Users Analyzed'', Text ''2''),
          (''Avg. Likes per Tweet'', FloatText (Finite (- 9223372036854775808)))]
   \<and> int64_column [9223372036854775807, 1]
   \<and> (9223372036854775807 + 1) / 1 = (9223372036854775808 :: real)
   \<and> map_sum id stat_blocks
       (create_summary_card
          \<lparr>word_count_df = [], daily_sentiment_df = [],
           user_stats_df = [\<lparr>user = ''u01'', total_engagement = 203, total_likes = 203\<rparr>],
           cleaned_tweets_df = replicate 200 ()\<rparr>) =
       Inr [(''Total Tweets Processed'', Text ''200''), (''Unique Users Analyzed'', Text ''1''),
            (''Avg. Likes per Tweet'', FloatText (float64 (101 / 100)))]
   \<and> rint (203 / 200 * 100) = 102
   \<and> float64 (101 / 100) \<noteq> float64 (102 / 100)
   \<and> map_sum id stat_blocks
       (create_summary_card
          \<lparr>word_count_df = [], daily_sentiment_df = [],
           user_stats_df = [\<lparr>user = ''u01'', total_engagement = 107, total_likes = 107\<rparr>],
           cleaned_tweets_df = replicate 40 ()\<rparr>) =
       Inr [(''Total Tweets Processed'', Text ''40''), (''Unique Users Analyzed'', Text ''1''),
            (''Avg. Likes per Tweet'', FloatText (float64 (268 / 100)))]
   \<and> py_round (PyFloat (float64 (107 / 40))) 2 = PyFloat (float64 (267 / 100))
   \<and> float64 (268 / 100) \<noteq> float64 (267 / 100)"
  by (simp add: create_summary_card_def series_sum_def int64_def int64_column_def Let_def
      format_thousands_def decimal.simps digit_char_def
      float64_def binade_def pow2_def rint_def)

text \<open>
  C3, amended. With a non-empty cleaned-tweets table (of fewer than \<open>2\<^sup>6\<^sup>3\<close> rows, as
  every table in memory has) and an \<^verbatim>\<open>int64\<close> column of likes the summary card is
  built and shows, each under its label: the row count of the cleaned-tweets table and
  the row count of the user-stats table, in the thousands format (which reads back as
  the count); and as the average likes per tweet 0.0 when the user-stats table is
  empty, and otherwise what NumPy computes: with \<open>q\<close> the float quotient of the sum of
  \<open>total_likes\<close>, taken in 64-bit wrap-around arithmetic and converted to a float, by
  the tweet count, and \<open>y\<close> the float product of \<open>q\<close> and 100, it is the integer nearest
  to \<open>y\<close> (a tie to the even one) divided as a float by 100, no infinity and no NaN
  arising on the way. When the sum of the likes lies in the 64-bit range, the value
  shown is within \<open>0.005 + (|r| + 1) / 2\<^sup>4\<^sup>9\<close> of the quotient \<open>r\<close> of the sum by the
  tweet count.
\<close>

theorem C3_summary_card:
  assumes "cleaned_tweets_df g \<noteq> []" and "length (cleaned_tweets_df g) < 2 ^ 63"
    and "int64_column (map total_likes (user_stats_df g))"
  shows "\<exists>summary avg q y.
           create_summary_card g = Inr summary
         \<and> stat_blocks summary =
             [(''Total Tweets Processed'', Text (format_thousands (length (cleaned_tweets_df g)))),
              (''Unique Users Analyzed'', Text (format_thousands (length (user_stats_df g)))),
              (''Avg. Likes per Tweet'', FloatText avg)]
         \<and> read_thousands (format_thousands (length (cleaned_tweets_df g))) = length (cleaned_tweets_df g)
         \<and> read_thousands (format_thousands (length (user_stats_df g))) = length (user_stats_df g)
         \<and> q = float_value (float64
                  (float_value (float64 (of_int (int64 (\<Sum>r\<leftarrow>user_stats_df g. total_likes r))))
                   / float_value (float64 (of_nat (length (cleaned_tweets_df g))))))
         \<and> y = float_value (float64 (q * 100))
         \<and> avg =
             (if user_stats_df g = [] then Finite 0
              else if rint y = 0 \<and> y < 0 then NegZero
              else float64 (of_int (rint y) / 100))
         \<and> (- (2 ^ 63) \<le> (\<Sum>r\<leftarrow>user_stats_df g. total_likes r)
              \<and> (\<Sum>r\<leftarrow>user_stats_df g. total_likes r) < 2 ^ 63 \<longrightarrow>
            \<bar>float_value avg - of_int (\<Sum>r\<leftarrow>user_stats_df g. total_likes r)
                                / of_nat (length (cleaned_tweets_df g))\<bar>
              \<le> 1 / 200 + (\<bar>of_int (\<Sum>r\<leftarrow>user_stats_df g. total_likes r)
                               / of_nat (length (cleaned_tweets_df g))\<bar> + 1) / 2 ^ 49)"
proof -
  let ?n = "length (cleaned_tweets_df g)"
  let ?S = "\<Sum>r\<leftarrow>user_stats_df g. total_likes r"
  let ?fq = "float64 (float_value (float64 (of_int (int64 ?S))) / float_value (float64 (of_nat ?n)))"
  let ?np = "the_float (py_round (NpFloat64 ?fq) 2)"
  let ?q = "float_value ?fq"
  let ?y = "float_value (float64 (?q * 100))"
  let ?avg = "if user_stats_df g = [] then Finite 0 else ?np"
  have n: "0 < ?n" using assms(1) by simp
  obtain summary where s: "create_summary_card g = Inr summary"
    using assms(1) summary_card_ok [of g] by blast
  from summary_card_stats [OF s] obtain ratio
    where r: "true_divide (series_sum (map total_likes (user_stats_df g))) ?n = Inr ratio"
      and b: "stat_blocks summary =
             [(''Total Tweets Processed'', Text (format_thousands ?n)),
              (''Unique Users Analyzed'', Text (format_thousands (length (user_stats_df g)))),
              (''Avg. Likes per Tweet'', FloatText (the_float (py_round ratio 2)))]"
    by blast
  have a: "the_float (py_round ratio 2) = ?avg"
    using r n by (auto simp: true_divide_series_sum rint_0 float64_0 split: if_splits)
  have v: "?np = (if rint ?y = 0 \<and> ?y < 0 then NegZero else float64 (of_int (rint ?y) / 100))"
    using int64_range [of ?S] by (intro np_round_quotient_value n assms(2)) simp_all
  have e: "\<bar>float_value ?avg - of_int ?S / of_nat ?n\<bar> \<le> 1 / 200 + (\<bar>of_int ?S / of_nat ?n\<bar> + 1) / 2 ^ 49"
    if range: "- (2 ^ 63) \<le> ?S" "?S < 2 ^ 63"
  proof (cases "user_stats_df g = []")
    case True
    then show ?thesis by simp
  next
    case False
    with np_round_quotient_error [OF range n assms(2)] int64_id [OF range]
    show ?thesis by simp
  qed
  have "?avg = (if user_stats_df g = [] then Finite 0
                else if rint ?y = 0 \<and> ?y < 0 then NegZero else float64 (of_int (rint ?y) / 100))"
    using v by simp
  with s b a e show ?thesis
    by (intro exI [of _ summary] exI [of _ ?avg] exI [of _ ?q] exI [of _ ?y])
       (simp add: read_thousands_format)
qed

theorem C3_witness:
  "cleaned_tweets_df tables_example \<noteq> []
   \<and> length (cleaned_tweets_df tables_example) < 2 ^ 63
   \<and> int64_column (map total_likes (user_stats_df tables_example))
   \<and> map_sum id stat_blocks (create_summary_card tables_example) =
       Inr [(''Total Tweets Processed'', Text ''1,234''), (''Unique Users Analyzed'', Text ''11''),
            (''Avg. Likes per Tweet'', FloatText (float64 (24 / 100)))]
   \<and> (\<Sum>r\<leftarrow>user_stats_df tables_example. total_likes r) = 300
   \<and> length (cleaned_tweets_df tables_example) = 1234
   \<and> \<bar>float_value (float64 (24 / 100)) - 300 / 1234\<bar> \<le> 1 / 200 + (\<bar>300 / 1234\<bar> + 1) / 2 ^ 49"
proof -
  have "map_sum id stat_blocks (create_summary_card tables_example) =
       Inr [(''Total Tweets Processed'', Text ''1,234''), (''Unique Users Analyzed'', Text ''11''),
            (''Avg. Likes per Tweet'', FloatText (float64 (24 / 100)))]"
    by (simp add: tables_example_def us_example_def create_summary_card_def series_sum_def int64_def
        format_thousands_def decimal.simps digit_char_def Let_def
        float64_def binade_def pow2_def rint_def)
  moreover have "\<bar>float_value (float64 (24 / 100)) - 300 / 1234\<bar> \<le> 1 / 200 + (\<bar>300 / 1234\<bar> + 1) / 2 ^ 49"
    by (simp add: float64_def binade_def pow2_def rint_def Let_def)
  moreover have "cleaned_tweets_df tables_example \<noteq> []
      \<and> length (cleaned_tweets_df tables_example) < 2 ^ 63
      \<and> int64_column (map total_likes (user_stats_df tables_example))
      \<and> (\<Sum>r\<leftarrow>user_stats_df tables_example. total_likes r) = 300
      \<and> length (cleaned_tweets_df tables_example) = 1234"
    by (simp add: tables_example_def us_example_def int64_column_def)
  ultimately show ?thesis
    using C3_summary_card [of tables_example] by simp
qed

text \<open>
  C7, as the spec states it, fails: with no cleaned tweet and the eleven users of the
  example the builder does not raise. The sum of the likes is a NumPy integer, NumPy's
  division by zero returns infinity, and the card is built with \<open>inf\<close> as its
  average.
\<close>

theorem C7_counterexample:
  "map_sum id h3_contents
     (create_summary_card
        \<lparr>word_count_df = wc_example, daily_sentiment_df = ds_example,
         user_stats_df = us_example, cleaned_tweets_df = ([] :: unit list)\<rparr>) =
     Inr [Text ''0'', Text ''11'', FloatText PosInf]"
  by (simp add: create_summary_card_def Let_def series_sum_def int64_def us_example_def
      format_thousands_def decimal.simps digit_char_def)

text \<open>
  C7, amended. When the total tweet count is 0 the division of the summary card is
  unguarded. It raises \<open>ZeroDivisionError\<close>, which nothing catches, when the user-stats
  table is empty as well. With a non-empty user-stats table, its likes an \<^verbatim>\<open>int64\<close>
  column, it does not raise: the quotient is \<open>inf\<close>, \<open>-inf\<close> or \<open>nan\<close> as the sum of the
  likes, taken in 64-bit wrap-around arithmetic, is positive, negative or zero, and the
  card is built and shows it. The wrapped sum is the sum of the likes when that lies in
  the 64-bit range.
\<close>

theorem C7_zero_tweets:
  assumes "cleaned_tweets_df g = []" and "int64_column (map total_likes (user_stats_df g))"
  shows "(user_stats_df g = [] \<longrightarrow> create_summary_card g = Inl ZeroDivisionError)
       \<and> (user_stats_df g \<noteq> [] \<longrightarrow>
            (\<exists>summary. create_summary_card g = Inr summary
               \<and> h3_contents summary =
                   [Text (format_thousands 0), Text (format_thousands (length (user_stats_df g))),
                    FloatText (if 0 < int64 (\<Sum>r\<leftarrow>user_stats_df g. total_likes r) then PosInf
                               else if int64 (\<Sum>r\<leftarrow>user_stats_df g. total_likes r) < 0 then NegInf
                               else NaN)]))
       \<and> (- (2 ^ 63) \<le> (\<Sum>r\<leftarrow>user_stats_df g. total_likes r)
            \<and> (\<Sum>r\<leftarrow>user_stats_df g. total_likes r) < 2 ^ 63 \<longrightarrow>
          int64 (\<Sum>r\<leftarrow>user_stats_df g. total_likes r) = (\<Sum>r\<leftarrow>user_stats_df g. total_likes r))"
  using assms(1) by (simp add: create_summary_card_def Let_def series_sum_def int64_id)

theorem C7_witness:
  "cleaned_tweets_df (tables_example\<lparr>cleaned_tweets_df := []\<rparr>) = []
   \<and> user_stats_df (tables_example\<lparr>cleaned_tweets_df := []\<rparr>) \<noteq> []
   \<and> map_sum id h3_contents (create_summary_card (tables_example\<lparr>cleaned_tweets_df := []\<rparr>)) =
       Inr [Text ''0'', Text ''11'', FloatText PosInf]
   \<and> cleaned_tweets_df (tables_example\<lparr>cleaned_tweets_df := [], user_stats_df := []\<rparr>) = []
   \<and> user_stats_df (tables_example\<lparr>cleaned_tweets_df := [], user_stats_df := []\<rparr>) = []
   \<and> create_summary_card (tables_example\<lparr>cleaned_tweets_df := [], user_stats_df := []\<rparr>) =
       Inl ZeroDivisionError
   \<and> map_sum id h3_contents
       (create_summary_card
          (tables_example\<lparr>cleaned_tweets_df := [],
             user_stats_df :=
               [\<lparr>user = ''u01'', total_engagement = 9223372036854775807, total_likes = 9223372036854775807\<rparr>,
                \<lparr>user = ''u02'', total_engagement = 1, total_likes = 1\<rparr>]\<rparr>)) =
       Inr [Text ''0'', Text ''2'', FloatText NegInf]
   \<and> int64_column (map total_likes us_example) \<and> int64_column [9223372036854775807, 1]"
  using C7_zero_tweets [of "tables_example\<lparr>cleaned_tweets_df := []\<rparr>"]
    C7_zero_tweets [of "tables_example\<lparr>cleaned_tweets_df := [], user_stats_df := []\<rparr>"]
    C7_zero_tweets [of "tables_example\<lparr>cleaned_tweets_df := [],
             user_stats_df :=
               [\<lparr>user = ''u01'', total_engagement = 9223372036854775807, total_likes = 9223372036854775807\<rparr>,
                \<lparr>user = ''u02'', total_engagement = 1, total_likes = 1\<rparr>]\<rparr>"]
  by (simp add: tables_example_def us_example_def create_summary_card_def series_sum_def int64_def
      int64_column_def Let_def format_thousands_def decimal.simps digit_char_def)

subsection \<open>The layout\<close>

lemma layout_cong:
  assumes "word_count_df g = word_count_df g'" and "daily_sentiment_df g = daily_sentiment_df g'"
    and "user_stats_df g = user_stats_df g'" and "cleaned_tweets_df g = cleaned_tweets_df g'"
  shows "layout g = layout g'"
  by (simp add: layout_def assms create_summary_card_cong [OF assms(4) assms(3)] cong: sum.case_cong)

lemma layout_truncate: "layout (tables.truncate g) = layout g"
  by (rule layout_cong) (simp_all add: tables.truncate_def)

lemma layout_fails_iff:
  "layout g = Inl e \<longleftrightarrow> cleaned_tweets_df g = [] \<and> user_stats_df g = [] \<and> e = ZeroDivisionError"
  using summary_card_fails_iff [of g e] by (auto simp: layout_def split: sum.splits)

lemma layout_graphs:
  assumes "layout g = Inr page"
  shows "graphs page =
     [create_word_count_chart (word_count_df g), create_user_engagement_chart (user_stats_df g),
      create_sentiment_line_chart (daily_sentiment_df g)]"
  using assms by (auto simp: layout_def graphs_summary_card split: sum.splits)

lemma layout_ok:
  assumes "cleaned_tweets_df g \<noteq> [] \<or> user_stats_df g \<noteq> []"
  shows "\<exists>page. layout g = Inr page"
proof (cases "layout g")
  case (Inl e)
  with assms show ?thesis by (simp add: layout_fails_iff)
next
  case (Inr page)
  then show ?thesis by blast
qed

text \<open>
  C10. On a word-count table of fewer than 20 rows and a user-stats table of fewer than
  10 rows each builder returns a chart with exactly one bar per row of its table, the
  bars being the rows' pairs; and the page built from such tables and at least one
  cleaned tweet is built, with those charts in it.
\<close>

theorem C10_short_tables:
  assumes "length wc < 20" and "length us < 10"
  shows "length (marks (create_word_count_chart wc)) = length wc
       \<and> mset (marks (create_word_count_chart wc)) = mset (map (\<lambda>r. (IntD (total_count r), StrD (word r))) wc)
       \<and> length (marks (create_user_engagement_chart us)) = length us
       \<and> mset (marks (create_user_engagement_chart us)) = mset (map (\<lambda>r. (IntD (total_engagement r), StrD (user r))) us)
       \<and> (\<exists>page. layout \<lparr>word_count_df = wc, daily_sentiment_df = ds, user_stats_df = us,
                            cleaned_tweets_df = t # ts\<rparr> = Inr page
                 \<and> graphs page = [create_word_count_chart wc, create_user_engagement_chart us,
                                   create_sentiment_line_chart ds])"
proof -
  have w: "marks (create_word_count_chart wc) =
      map (\<lambda>r. (IntD (total_count r), StrD (word r))) (sort_values total_count (head 20 wc))"
    by (simp add: create_word_count_chart_def Let_def marks_px_bar)
  have u: "marks (create_user_engagement_chart us) =
      map (\<lambda>r. (IntD (total_engagement r), StrD (user r))) (sort_values total_engagement (head 10 us))"
    by (simp add: create_user_engagement_chart_def Let_def marks_px_bar)
  have "mset (sort_values total_count (head 20 wc)) = mset wc"
    using assms(1) by (simp add: mset_top_rows)
  then have 1: "mset (marks (create_word_count_chart wc)) =
      mset (map (\<lambda>r. (IntD (total_count r), StrD (word r))) wc)"
    unfolding w by (metis mset_map)
  have "mset (sort_values total_engagement (head 10 us)) = mset us"
    using assms(2) by (simp add: mset_top_rows)
  then have 2: "mset (marks (create_user_engagement_chart us)) =
      mset (map (\<lambda>r. (IntD (total_engagement r), StrD (user r))) us)"
    unfolding u by (metis mset_map)
  let ?g = "\<lparr>word_count_df = wc, daily_sentiment_df = ds, user_stats_df = us, cleaned_tweets_df = t # ts\<rparr>"
  obtain page where p: "layout ?g = Inr page"
    using layout_ok [of ?g] by auto
  have 3: "\<exists>page. layout ?g = Inr page
       \<and> graphs page = [create_word_count_chart wc, create_user_engagement_chart us, create_sentiment_line_chart ds]"
    using p layout_graphs [OF p] by simp
  show ?thesis
    using assms 1 2 3 by (simp add: w u length_top_rows)
qed

theorem C10_witness:
  "length (take 2 wc_example) < 20 \<and> length ([] :: user_stats_row list) < 10
   \<and> marks (create_word_count_chart (take 2 wc_example)) = [(IntD 450, StrD ''a''), (IntD 500, StrD ''the'')]
   \<and> marks (create_user_engagement_chart []) = []
   \<and> map_sum id (map marks \<circ> graphs)
        (layout \<lparr>word_count_df = take 2 wc_example, daily_sentiment_df = [], user_stats_df = [],
                 cleaned_tweets_df = [()]\<rparr>) =
       Inr [[(IntD 450, StrD ''a''), (IntD 500, StrD ''the'')], [], []]"
  using C10_short_tables [of "take 2 wc_example" "[]" "[]" "()" "[]"]
  by (simp add: wc_example_def layout_def create_summary_card_def series_sum_def rint_0 float64_0 Let_def
      create_word_count_chart_def create_user_engagement_chart_def create_sentiment_line_chart_def
      px_bar_def px_line_def update_traces_def sort_values_def head_def marks_def)

text \<open>
  C6, as the spec states it, fails: \<^verbatim>\<open>head\<close> slices and does not index, so on an
  empty table each builder returns a chart without bars or points. With the three
  MapReduce files holding a header and no row, and one cleaned tweet, the script
  serves the page with its three empty charts.
\<close>

theorem C6_counterexample:
  "marks (create_word_count_chart []) = []
   \<and> marks (create_user_engagement_chart []) = []
   \<and> marks (create_sentiment_line_chart []) = []
   \<and> map_outcome (map_option (map marks \<circ> graphs) \<circ> app_layout)
        (outcome (main parse_example
           \<lparr>mapreduce_word_count_csv = Csv [], mapreduce_daily_sentiment_csv = Csv [],
            mapreduce_user_stats_csv = Csv [], tweets_cleaned_csv = Csv [()]\<rparr>)) =
       Serving (Some [[], [], []])"
  by (simp add: main_def load_data_def to_datetime_def assign_date_def assign_layout_def layout_def
      create_summary_card_def series_sum_def rint_0 float64_0 Let_def
      create_word_count_chart_def create_user_engagement_chart_def create_sentiment_line_chart_def
      px_bar_def px_line_def update_traces_def sort_values_def head_def marks_def)

text \<open>
  C6, amended. Empty input tables do not make chart construction fail: on an empty
  table each chart builder returns a chart with no bar and no point, and whenever the
  page is built it holds the three charts of the three tables. Building the page
  fails in one case only, in the summary card and not in a chart builder: with
  \<open>ZeroDivisionError\<close> when the cleaned-tweets and the user-stats tables are both empty.
\<close>

theorem C6_empty_tables_give_empty_charts:
  "marks (create_word_count_chart []) = []
   \<and> marks (create_user_engagement_chart []) = []
   \<and> marks (create_sentiment_line_chart []) = []
   \<and> (layout g = Inl e) = (cleaned_tweets_df g = [] \<and> user_stats_df g = [] \<and> e = ZeroDivisionError)
   \<and> (\<forall>page. layout g = Inr page \<longrightarrow>
         graphs page = [create_word_count_chart (word_count_df g),
                        create_user_engagement_chart (user_stats_df g),
                        create_sentiment_line_chart (daily_sentiment_df g)])"
proof -
  have "marks (create_word_count_chart []) = []"
    by (simp add: create_word_count_chart_def Let_def marks_px_bar sort_values_def head_def)
  moreover have "marks (create_user_engagement_chart []) = []"
    by (simp add: create_user_engagement_chart_def Let_def marks_px_bar sort_values_def head_def)
  moreover have "marks (create_sentiment_line_chart []) = []"
    by (simp add: create_sentiment_line_chart_def Let_def px_line_def update_traces_def marks_def)
  ultimately show ?thesis
    using layout_fails_iff [of g e] layout_graphs [of g] by blast
qed

theorem C6_witness:
  "map_sum id (map marks \<circ> graphs)
     (layout \<lparr>word_count_df = [], daily_sentiment_df = [], user_stats_df = [],
              cleaned_tweets_df = [()]\<rparr>) = Inr [[], [], []]"
  using C6_empty_tables_give_empty_charts
    [of "\<lparr>word_count_df = [], daily_sentiment_df = [], user_stats_df = [], cleaned_tweets_df = [()]\<rparr>"]
  by (simp add: layout_def create_summary_card_def series_sum_def rint_0 float64_0 Let_def
      create_word_count_chart_def create_user_engagement_chart_def create_sentiment_line_chart_def
      px_bar_def px_line_def update_traces_def sort_values_def head_def marks_def)

subsection \<open>Loading and the run of the script\<close>















lemma load_data_example:
  "load_data parse_example files_example =
     Inr (tables.extend tables_example \<lparr>emotions_sample_df = replicate 1000 ()\<rparr>)"
  by (simp add: load_data_def files_example_def parse_example_def to_datetime_def assign_date_def
      tables_example_def tables.extend_def ds_example_def head_def)

lemma load_data_without_prefix_eq:
  "load_data_without_prefix parse fs = map_sum id tables.truncate (load_data parse fs)"
  unfolding load_data_def load_data_without_prefix_def
  by (cases "mapreduce_word_count_csv fs"; cases "mapreduce_daily_sentiment_csv fs";
      cases "mapreduce_user_stats_csv fs"; cases "tweets_cleaned_csv fs";
      cases "to_datetime parse
               (map date (case mapreduce_daily_sentiment_csv fs of Csv t \<Rightarrow> t | _ \<Rightarrow> []))")
     (simp_all add: tables.truncate_def)

text \<open>
  C9. The 1000-row prefix is dead: the script and the script without the statement
  that loads the prefix print the same lines and end the same way, serving the same
  page tree when they serve; and the page built from the tables does not change when
  the prefix table is replaced by any other.
\<close>

theorem C9_prefix_is_dead:
  "stdout (main parse fs) = stdout (main_without_prefix parse fs)
   \<and> map_outcome app_layout (outcome (main parse fs)) =
       map_outcome app_layout (outcome (main_without_prefix parse fs))
   \<and> layout (g\<lparr>emotions_sample_df := other\<rparr>) = layout g"
proof -
  have l: "layout (g\<lparr>emotions_sample_df := other\<rparr>) = layout g"
    by (rule layout_cong) simp_all
  show ?thesis
  proof (cases "load_data parse fs")
    case (Inl e)
    then have "load_data_without_prefix parse fs = Inl e"
      by (simp add: load_data_without_prefix_eq)
    with Inl show ?thesis
      by (simp add: l main_def main_without_prefix_def split: py_error.splits)
  next
    case (Inr tabs)
    then have w: "load_data_without_prefix parse fs = Inr (tables.truncate tabs)"
      by (simp add: load_data_without_prefix_eq)
    show ?thesis
    proof (cases "layout tabs")
      case (Inl e)
      with Inr w show ?thesis
        by (simp add: l main_def main_without_prefix_def assign_layout_def layout_truncate)
    next
      case (Inr page)
      with \<open>load_data parse fs = Inr tabs\<close> w show ?thesis
        by (simp add: l main_def main_without_prefix_def assign_layout_def layout_truncate)
    qed
  qed
qed

subsection \<open>The tables in memory\<close>

lemma create_summary_card_st_eq: "create_summary_card_st s = (create_summary_card (tables_of s), s)"
  by (simp add: create_summary_card_st_def create_summary_card_def tables_of_def Let_def
      split: sum.splits)

lemma create_word_count_chart_st_eq:
  "create_word_count_chart_st df m =
     (length (fig_objects m),
      m\<lparr>wc_objects := wc_objects m @ [head 20 (wc_objects m ! df),
                                       sort_values total_count (head 20 (wc_objects m ! df))],
        fig_objects := fig_objects m @ [create_word_count_chart (wc_objects m ! df)]\<rparr>)"
  by (simp add: create_word_count_chart_st_def wc_head_def wc_sort_values_def new_figure_def
      create_word_count_chart_def Let_def nth_append)

lemma create_user_engagement_chart_st_eq:
  "create_user_engagement_chart_st df m =
     (length (fig_objects m),
      m\<lparr>us_objects := us_objects m @ [head 10 (us_objects m ! df),
                                       sort_values total_engagement (head 10 (us_objects m ! df))],
        fig_objects := fig_objects m @ [create_user_engagement_chart (us_objects m ! df)]\<rparr>)"
  by (simp add: create_user_engagement_chart_st_def us_head_def us_sort_values_def new_figure_def
      create_user_engagement_chart_def Let_def nth_append)

lemma create_sentiment_line_chart_st_eq:
  "create_sentiment_line_chart_st df m =
     (length (fig_objects m),
      m\<lparr>fig_objects := fig_objects m @ [create_sentiment_line_chart (ds_objects m ! df)]\<rparr>)"
  by (simp add: create_sentiment_line_chart_st_def new_figure_def fig_update_traces_def
      create_sentiment_line_chart_def Let_def)

lemma fig_update_traces_in_place:
  "fig < length (fig_objects m) \<Longrightarrow>
     fig_objects (fig_update_traces props fig m) ! fig = update_traces props (fig_objects m ! fig)
     \<and> length (fig_objects (fig_update_traces props fig m)) = length (fig_objects m)"
  by (simp add: fig_update_traces_def)

lemma layout_st_eq:
  "layout_st s =
     (case layout (tables_of s) of
        Inl e \<Rightarrow> (Inl e, s)
      | Inr page \<Rightarrow>
          (Inr page,
           s\<lparr>wc_objects := wc_objects s @
                 [head 20 (wc_objects s ! word_count_df_ref s),
                  sort_values total_count (head 20 (wc_objects s ! word_count_df_ref s))],
             us_objects := us_objects s @
                 [head 10 (us_objects s ! user_stats_df_ref s),
                  sort_values total_engagement (head 10 (us_objects s ! user_stats_df_ref s))],
             fig_objects := fig_objects s @
                 [create_word_count_chart (wc_objects s ! word_count_df_ref s),
                  create_user_engagement_chart (us_objects s ! user_stats_df_ref s),
                  create_sentiment_line_chart (ds_objects s ! daily_sentiment_df_ref s)]\<rparr>))"
  by (simp add: layout_st_def layout_def create_summary_card_st_eq create_word_count_chart_st_eq
      create_user_engagement_chart_st_eq create_sentiment_line_chart_st_eq tables_of_def nth_append
      split: sum.splits)

lemma state_after_load_tables:
  "valid_refs (state_after_load g) \<and> tables_of (state_after_load g) = g"
  by (simp add: valid_refs_def state_after_load_def tables_of_def)

text \<open>
  C8. Building the page changes no loaded table. In a state where the five global names
  refer to tables, each of the three chart builders, called on the table of its name,
  and the summary card builder leave a memory that keeps every table of the memory
  they started in; the tables the chart builders make are new objects, and the one
  object changed in place is the figure \<^verbatim>\<open>update_traces\<close> is called on. After the
  assignment of the layout, which calls the four builders, every table object is kept,
  the five names refer to what they referred to, and the five tables read through them
  are the tables from before; the layout assigned is the page tree of those tables.
\<close>

theorem C8_tables_unchanged:
  assumes "valid_refs s"
  shows "tables_kept s (snd (create_word_count_chart_st (word_count_df_ref s) s))
       \<and> tables_kept s (snd (create_sentiment_line_chart_st (daily_sentiment_df_ref s) s))
       \<and> tables_kept s (snd (create_user_engagement_chart_st (user_stats_df_ref s) s))
       \<and> tables_kept s (snd (create_summary_card_st s))
       \<and> (case assign_layout_st s of
            (result, s') \<Rightarrow>
               tables_kept s s'
             \<and> word_count_df_ref s' = word_count_df_ref s
             \<and> daily_sentiment_df_ref s' = daily_sentiment_df_ref s
             \<and> user_stats_df_ref s' = user_stats_df_ref s
             \<and> cleaned_tweets_df_ref s' = cleaned_tweets_df_ref s
             \<and> emotions_sample_df_ref s' = emotions_sample_df_ref s
             \<and> tables_of s' = tables_of s
             \<and> (case result of
                   Inl e \<Rightarrow> layout (tables_of s) = Inl e \<and> layout_attr s' = layout_attr s
                 | Inr ok \<Rightarrow>
                     (\<exists>page. layout (tables_of s) = Inr page \<and> layout_attr s' = Some page)))"
  using assms
  by (simp add: create_word_count_chart_st_eq create_sentiment_line_chart_st_eq
      create_user_engagement_chart_st_eq create_summary_card_st_eq assign_layout_st_def
      layout_st_eq tables_kept_def valid_refs_def tables_of_def nth_append
      split: sum.splits)

theorem C8_witness:
  "load_data parse_example files_example =
     Inr (tables.extend tables_example \<lparr>emotions_sample_df = replicate 1000 ()\<rparr>)
   \<and> valid_refs (state_after_load (tables.extend tables_example \<lparr>emotions_sample_df = replicate 1000 ()\<rparr>))
   \<and> fst (assign_layout_st
        (state_after_load (tables.extend tables_example \<lparr>emotions_sample_df = replicate 1000 ()\<rparr>))) = Inr ()
   \<and> tables_of (snd (assign_layout_st
        (state_after_load (tables.extend tables_example \<lparr>emotions_sample_df = replicate 1000 ()\<rparr>)))) =
       tables.extend tables_example \<lparr>emotions_sample_df = replicate 1000 ()\<rparr>
   \<and> map length (wc_objects (snd (assign_layout_st
        (state_after_load (tables.extend tables_example \<lparr>emotions_sample_df = replicate 1000 ()\<rparr>))))) =
       [21, 20, 20]"
proof -
  let ?g = "tables.extend tables_example \<lparr>emotions_sample_df = replicate 1000 ()\<rparr>"
  have v: "valid_refs (state_after_load ?g)" and t: "tables_of (state_after_load ?g) = ?g"
    using state_after_load_tables [of ?g] by simp_all
  have "cleaned_tweets_df ?g \<noteq> []"
    by (simp add: tables.extend_def tables_example_def)
  then obtain page where p: "layout ?g = Inr page"
    using layout_ok [of ?g] by blast
  have r: "fst (assign_layout_st (state_after_load ?g)) = Inr ()"
    by (simp add: assign_layout_st_def layout_st_eq t p)
  have w: "map length (wc_objects (snd (assign_layout_st (state_after_load ?g)))) = [21, 20, 20]"
    unfolding assign_layout_st_def layout_st_eq t p
    by (simp add: state_after_load_def tables.extend_def tables_example_def wc_example_def
        head_def sort_values_def)
  from C8_tables_unchanged [OF v] t have "tables_of (snd (assign_layout_st (state_after_load ?g))) = ?g"
    by (simp add: case_prod_beta)
  with v r w load_data_example show ?thesis by simp
qed

end
